theory Spec2Isabelle
  imports Complex_Main "HOL-Library.Log_Nat"
begin

section \<open>Numbers and errors\<close>

text \<open>
  The program computes with Python and numpy floats. The embedding uses exact rational
  arithmetic for finite values; rounding is not modelled. A pandas cell that holds no
  finite number (a missing value, NaN, or the result of dividing by zero) is \<open>None\<close>,
  and arithmetic propagates it as NaN does.
\<close>

datatype error = AssertionError | ZeroDivisionError | AttributeError | ValueError | TypeError | IndexError

type_synonym num = "rat option"

definition fadd :: "num \<Rightarrow> num \<Rightarrow> num" where
  "fadd a b = (case a of None \<Rightarrow> None | Some x \<Rightarrow> (case b of None \<Rightarrow> None | Some y \<Rightarrow> Some (x + y)))"

definition fsub :: "num \<Rightarrow> num \<Rightarrow> num" where
  "fsub a b = (case a of None \<Rightarrow> None | Some x \<Rightarrow> (case b of None \<Rightarrow> None | Some y \<Rightarrow> Some (x - y)))"

definition fmul :: "num \<Rightarrow> num \<Rightarrow> num" where
  "fmul a b = (case a of None \<Rightarrow> None | Some x \<Rightarrow> (case b of None \<Rightarrow> None | Some y \<Rightarrow> Some (x * y)))"

definition fneg :: "num \<Rightarrow> num" where
  "fneg a = map_option uminus a"

definition fabs :: "num \<Rightarrow> num" where
  "fabs a = map_option abs a"

text \<open>Floor division \<open>a // b\<close> of floats; a zero divisor gives no finite number.\<close>

definition ffloordiv :: "num \<Rightarrow> num \<Rightarrow> num" where
  "ffloordiv a b =
     (case a of None \<Rightarrow> None
      | Some x \<Rightarrow> (case b of None \<Rightarrow> None
          | Some y \<Rightarrow> if y = 0 then None else Some (of_int \<lfloor>x / y\<rfloor>)))"

text \<open>Python's builtin \<open>sum\<close> over a column: it starts from 0 and adds every cell, so one
  NaN makes the result NaN.\<close>

definition fsum :: "num list \<Rightarrow> num" where
  "fsum xs = foldl fadd (Some 0) xs"

section \<open>The constructor\<close>

record alloc =
  stocks_frac :: rat
  options_frac :: rat
  cash_frac :: rat

record stock =
  symbol :: string
  percentage :: rat

datatype direction = BUY | SELL

text \<open>\<open>Direction.__invert__\<close>.\<close>

fun invert :: "direction \<Rightarrow> direction" where
  "invert BUY = SELL"
| "invert SELL = BUY"

text \<open>The dict \<open>allocation\<close> with \<open>allocation.get(a, 0.0)\<close>.\<close>

definition dict_get :: "(string \<rightharpoonup> rat) \<Rightarrow> string \<Rightarrow> rat" where
  "dict_get d k = (case d k of None \<Rightarrow> 0 | Some v \<Rightarrow> v)"

definition assets :: "string list" where
  "assets = [''stocks'', ''options'', ''cash'']"

definition total_allocation :: "(string \<rightharpoonup> rat) \<Rightarrow> rat" where
  "total_allocation allocation = sum_list (map (dict_get allocation) assets)"

record 'strat backtest =
  allocation :: alloc
  initial_capital :: rat
  stop_if_broke :: bool
  shares_per_contract :: rat
  stocks :: "stock list"
  options_strategy :: "'strat option"

text \<open>\<open>Backtest.__init__\<close> in exact arithmetic: the division by \<open>total_allocation\<close> raises
  when it is zero. The rounding of lines 18 to 22 is the subject of the section on
  binary64 values below.\<close>

definition Backtest_init :: "(string \<rightharpoonup> rat) \<Rightarrow> rat \<Rightarrow> rat \<Rightarrow> error + 'strat backtest" where
  "Backtest_init allocation0 initial_capital0 shares_per_contract0 =
     (let t = total_allocation allocation0 in
      if t = 0 then Inl ZeroDivisionError
      else Inr \<lparr> allocation = \<lparr> stocks_frac = dict_get allocation0 ''stocks'' / t,
                                 options_frac = dict_get allocation0 ''options'' / t,
                                 cash_frac = dict_get allocation0 ''cash'' / t \<rparr>,
                 initial_capital = initial_capital0,
                 stop_if_broke = True,
                 shares_per_contract = shares_per_contract0,
                 stocks = [],
                 options_strategy = None \<rparr>)"

section \<open>The constructor on binary64 values\<close>

text \<open>
  Lines 18 to 22 once more, with every sum and quotient rounded as Python rounds it: to
  the nearest binary64 value, ties to even, with gradual underflow and with overflow to
  an infinity. Finite values are the rationals they denote; the two zeros are not
  distinguished. The dict holds finite floats (an int value counts as the float it
  converts to).
\<close>

text \<open>Rounding to the nearest integer, ties to even.\<close>

definition round_even :: "rat \<Rightarrow> int" where
  "round_even m =
     (let f = \<lfloor>m\<rfloor>; d = m - of_int f
      in if d < 1 / 2 then f else if 1 / 2 < d then f + 1 else if even f then f else f + 1)"

text \<open>The binary exponent of a nonzero rational: the floor of the logarithm to base 2 of
  its magnitude.\<close>

definition ilog2 :: "rat \<Rightarrow> int" where
  "ilog2 x = (if 1 \<le> \<bar>x\<bar> then bitlen \<lfloor>\<bar>x\<bar>\<rfloor> - 1 else - bitlen (\<lceil>1 / \<bar>x\<bar>\<rceil> - 1))"

text \<open>The nearest binary64 value, the exponent range taken unbounded above: 53
  significant bits, and below the exponent -1022 a fixed spacing of 2 to the -1074.\<close>

definition round_double :: "rat \<Rightarrow> rat" where
  "round_double x =
     (if x = 0 then 0
      else let e = max (ilog2 x) (- 1022); ulp = power_int 2 (e - 52)
           in of_int (round_even (x / ulp)) * ulp)"

text \<open>A magnitude of 2 to the 1024 or more is beyond the finite binary64 values.\<close>

definition overflows :: "rat \<Rightarrow> bool" where
  "overflows r = (r \<noteq> 0 \<and> 1024 \<le> ilog2 r)"

definition is_double :: "rat \<Rightarrow> bool" where
  "is_double x = (round_double x = x \<and> \<not> overflows x)"

text \<open>The spacing of the subnormal values, the multiples of it, and the relative
  rounding error of the normal range.\<close>

definition tiny :: rat where
  "tiny = power_int 2 (- 1074)"

definition on_grid :: "rat \<Rightarrow> bool" where
  "on_grid x = (of_int \<lfloor>x / tiny\<rfloor> = x / tiny)"

definition eps :: rat where
  "eps = 1 / 2 ^ 53"


datatype fp = Fin rat | PInf | NInf | NaN


text \<open>The float that a real result becomes.\<close>

definition fl :: "rat \<Rightarrow> fp" where
  "fl x =
     (let r = round_double x
      in if overflows r then (if 0 < r then PInf else NInf) else Fin r)"

text \<open>Float addition.\<close>

fun fp_add :: "fp \<Rightarrow> fp \<Rightarrow> fp" where
  "fp_add (Fin x) (Fin y) = fl (x + y)"
| "fp_add NaN y = NaN"
| "fp_add x NaN = NaN"
| "fp_add PInf NInf = NaN"
| "fp_add NInf PInf = NaN"
| "fp_add PInf y = PInf"
| "fp_add x PInf = PInf"
| "fp_add NInf y = NInf"
| "fp_add x NInf = NInf"

text \<open>Python's \<open>/\<close> on floats: a zero divisor raises; otherwise the IEEE quotient.\<close>

fun fp_div :: "fp \<Rightarrow> fp \<Rightarrow> error + fp" where
  "fp_div x (Fin y) =
     (if y = 0 then Inl ZeroDivisionError
      else Inr (case x of Fin a \<Rightarrow> fl (a / y)
                | PInf \<Rightarrow> (if 0 < y then PInf else NInf)
                | NInf \<Rightarrow> (if 0 < y then NInf else PInf)
                | NaN \<Rightarrow> NaN))"
| "fp_div (Fin a) PInf = Inr (Fin 0)"
| "fp_div (Fin a) NInf = Inr (Fin 0)"
| "fp_div x y = Inr NaN"

text \<open>\<open>allocation.get(a, 0.0)\<close> as a float, and \<open>sum(...)\<close>, which adds the three values
  to 0 from left to right.\<close>

definition float_get :: "(string \<rightharpoonup> rat) \<Rightarrow> string \<Rightarrow> fp" where
  "float_get a k = Fin (dict_get a k)"

definition float_total :: "(string \<rightharpoonup> rat) \<Rightarrow> fp" where
  "float_total a = foldl fp_add (Fin 0) (map (float_get a) assets)"

record float_alloc =
  stocks_fl :: fp
  options_fl :: fp
  cash_fl :: fp

text \<open>The loop of lines 21 and 22: one division per asset, in the order of \<open>assets\<close>.\<close>

definition Backtest_init_float :: "(string \<rightharpoonup> rat) \<Rightarrow> error + float_alloc" where
  "Backtest_init_float a =
     (let t = float_total a
      in case fp_div (float_get a ''stocks'') t of
           Inl e \<Rightarrow> Inl e
         | Inr s \<Rightarrow>
             (case fp_div (float_get a ''options'') t of
                Inl e \<Rightarrow> Inl e
              | Inr p \<Rightarrow>
                  (case fp_div (float_get a ''cash'') t of
                     Inl e \<Rightarrow> Inl e
                   | Inr c \<Rightarrow> Inr \<lparr> stocks_fl = s, options_fl = p, cash_fl = c \<rparr>)))"


section \<open>Market data, strategy and inventories\<close>

datatype signal = ENTRY | EXIT

datatype order_tag = BTO | BTC | STO | STC

text \<open>Modelled from the spec: \<open>enums.get_order\<close> is not in the source tree; the four tags
  are those of the cross product of direction and signal.\<close>

fun get_order :: "direction \<Rightarrow> signal \<Rightarrow> order_tag" where
  "get_order BUY ENTRY = BTO"
| "get_order BUY EXIT = STC"
| "get_order SELL ENTRY = STO"
| "get_order SELL EXIT = BTC"

text \<open>One row of an option slice. The schema maps the logical field \<open>contract\<close> to the
  column \<open>optionroot\<close>; the other logical names are the column names.\<close>

record option_row =
  optionroot :: string
  o_underlying :: string
  o_expiration :: int
  o_type :: string
  o_strike :: rat
  bid :: rat
  ask :: rat
  quotedate :: int

text \<open>Modelled from the spec: \<open>Direction.value\<close> names the quote column of a direction,
  \<open>ask\<close> for BUY and \<open>bid\<close> for SELL (a bought leg is closed at the bid).\<close>

fun price_col :: "direction \<Rightarrow> option_row \<Rightarrow> rat" where
  "price_col BUY r = ask r"
| "price_col SELL r = bid r"

record stock_row =
  s_symbol :: string
  s_date :: int
  adjClose :: rat
  sma :: num

text \<open>The seven columns one leg has in the options inventory and the trade log.\<close>

record leg_pos =
  contract :: "string option"
  underlying :: "string option"
  expiration :: "int option"
  otype :: "string option"
  strike :: "rat option"
  cost :: num
  order_of :: "order_tag option"

text \<open>A row of the options inventory or of the trade log: one block of columns per
  leg, in the order of the strategy's legs, and the \<open>totals\<close> block.\<close>

record combination =
  leg_cols :: "leg_pos list"
  totals_cost :: num
  totals_qty :: num
  totals_date :: "int option"

definition nan_leg :: leg_pos where
  "nan_leg = \<lparr> contract = None, underlying = None, expiration = None, otype = None,
               strike = None, cost = None, order_of = None \<rparr>"

text \<open>\<open>frame[leg.name]\<close> at one row; a block the row does not hold is all NaN.\<close>

definition leg_at :: "combination \<Rightarrow> nat \<Rightarrow> leg_pos" where
  "leg_at c i = (if i < length (leg_cols c) then leg_cols c ! i else nan_leg)"

text \<open>A row of the frame \<open>_get_current_option_quotes\<close> builds for a leg: the inventory's
  contract, the columns of the slice's row when the contract is quoted, and the added
  \<open>order\<close> and \<open>cost\<close> columns.\<close>

record quote_row =
  q_contract :: "string option"
  q_match :: "option_row option"
  q_order :: order_tag
  q_cost :: num

record leg =
  leg_name :: string
  leg_direction :: direction
  entry_filter :: "option_row \<Rightarrow> bool"
  exit_filter :: "quote_row \<Rightarrow> bool"

record strategy =
  legs :: "leg list"
  filter_thresholds :: "num \<Rightarrow> num \<Rightarrow> bool"

record holding =
  h_symbol :: string
  h_price :: rat
  h_qty :: num

text \<open>A row of \<open>self.balance\<close>; the per-stock columns are listed with their symbols,
  and a column the row has no cell for reads as NaN.\<close>

record balance_row =
  b_date :: int
  b_total_capital :: num
  b_cash :: num
  b_stock :: "(string \<times> num) list"
  b_options_qty :: num
  b_calls_capital :: num
  b_puts_capital :: num
  b_stocks_qty :: num
  b_options_capital :: num
  b_stocks_capital :: num

text \<open>The attributes \<open>run\<close> sets and the engine mutates.\<close>

record state =
  current_cash :: num
  trade_log :: "combination list"
  balance :: "balance_row list"
  options_inventory :: "combination list"
  stocks_inventory :: "holding list"

definition stock_col :: "balance_row \<Rightarrow> string \<Rightarrow> num" where
  "stock_col r k = (case map_of (b_stock r) k of None \<Rightarrow> None | Some v \<Rightarrow> v)"

definition initialize_inventories :: "state \<Rightarrow> state" where
  "initialize_inventories st = st\<lparr> options_inventory := [], stocks_inventory := [] \<rparr>"

section \<open>Current quotes and imputation\<close>

text \<open>\<open>left.merge(options, how='left', left_on='contract', right_on='optionroot')\<close>:
  every left key once for each matching row of the slice, and once with nothing when no
  row matches.\<close>

definition left_merge :: "string option list \<Rightarrow> option_row list \<Rightarrow> (string option \<times> option_row option) list" where
  "left_merge keys opts =
     concat (map (\<lambda>k. case filter (\<lambda>r. Some (optionroot r) = k) opts of
                          [] \<Rightarrow> [(k, None)]
                        | ms \<Rightarrow> map (\<lambda>m. (k, Some m)) ms) keys)"

text \<open>The closing cost of a leg: the quote of the opposite direction, negated when the
  closing side is a sell, times the shares per contract.\<close>

definition closing_cost :: "rat \<Rightarrow> direction \<Rightarrow> option_row option \<Rightarrow> num" where
  "closing_cost spc d m =
     (let c = map_option (price_col (invert d)) m;
          c = (if invert d = SELL then fneg c else c)
      in fmul c (Some spc))"

definition leg_quotes :: "'s backtest \<Rightarrow> state \<Rightarrow> option_row list \<Rightarrow> nat \<Rightarrow> leg \<Rightarrow> error + quote_row list" where
  "leg_quotes bt st options i l =
     (let leg_options = left_merge (map (\<lambda>c. contract (leg_at c i)) (options_inventory st)) options
      in if length leg_options \<noteq> length (options_inventory st) then Inl ValueError
         else Inr (map (\<lambda>(k, m). \<lparr> q_contract = k, q_match = m,
                                     q_order = get_order (leg_direction l) EXIT,
                                     q_cost = closing_cost (shares_per_contract bt) (leg_direction l) m \<rparr>)
                       leg_options))"

text \<open>Running a list of fallible steps: the first exception ends the loop.\<close>

fun collect :: "(error + 'a) list \<Rightarrow> error + 'a list" where
  "collect [] = Inr []"
| "collect (x # xs) =
     (case x of Inl e \<Rightarrow> Inl e
      | Inr v \<Rightarrow> (case collect xs of Inl e \<Rightarrow> Inl e | Inr vs \<Rightarrow> Inr (v # vs)))"

definition get_current_option_quotes :: "'s backtest \<Rightarrow> strategy \<Rightarrow> state \<Rightarrow> option_row list \<Rightarrow> error + quote_row list list" where
  "get_current_option_quotes bt strat st options =
     collect (map (\<lambda>(i, l). leg_quotes bt st options i l) (enumerate 0 (legs strat)))"

text \<open>\<open>a.fillna(b)\<close> on one cell and on one leg block.\<close>

definition fillna :: "'a option \<Rightarrow> 'a option \<Rightarrow> 'a option" where
  "fillna a b = (case a of None \<Rightarrow> b | Some v \<Rightarrow> Some v)"

definition fillna_leg :: "leg_pos \<Rightarrow> leg_pos \<Rightarrow> leg_pos" where
  "fillna_leg a b =
     \<lparr> contract = fillna (contract a) (contract b), underlying = fillna (underlying a) (underlying b),
       expiration = fillna (expiration a) (expiration b), otype = fillna (otype a) (otype b),
       strike = fillna (strike a) (strike b), cost = fillna (cost a) (cost b),
       order_of = fillna (order_of a) (order_of b) \<rparr>"

text \<open>\<open>frame.fillna(other)\<close> on frames over the inventory's index: cells are matched by
  row and by column label, and a column \<open>other\<close> lacks fills nothing. A frame of
  candidates has no \<open>totals\<close> block yet when it is filled; its cells of that block
  are set when the block is appended.\<close>

definition fillna_row :: "combination \<Rightarrow> combination \<Rightarrow> combination" where
  "fillna_row a b =
     \<lparr> leg_cols = map (\<lambda>(i, x). if i < length (leg_cols b) then fillna_leg x (leg_cols b ! i) else x)
                      (enumerate 0 (leg_cols a)),
       totals_cost = fillna (totals_cost a) (totals_cost b),
       totals_qty = fillna (totals_qty a) (totals_qty b),
       totals_date = fillna (totals_date a) (totals_date b) \<rparr>"

definition fillna_frame :: "combination list \<Rightarrow> combination list \<Rightarrow> combination list" where
  "fillna_frame a b = map (\<lambda>(i, x). if i < length b then fillna_row x (b ! i) else x) (enumerate 0 a)"

text \<open>\<open>_impute_missing_option_values\<close>: a copy of the inventory with the cost of every
  leg set to zero fills the missing cells of the argument.\<close>

definition zero_costs :: "strategy \<Rightarrow> combination \<Rightarrow> combination" where
  "zero_costs strat c =
     c\<lparr> leg_cols := map (\<lambda>(i, x). if i < length (legs strat) then x\<lparr> cost := Some 0 \<rparr> else x)
                         (enumerate 0 (leg_cols c)) \<rparr>"

definition impute_missing_option_values :: "strategy \<Rightarrow> state \<Rightarrow> combination list \<Rightarrow> combination list" where
  "impute_missing_option_values strat st exit_candidates =
     (let df = map (zero_costs strat) (options_inventory st)
      in fillna_frame exit_candidates df)"

section \<open>Forced close of the options inventory\<close>

text \<open>The columns \<open>_sell_options\<close> keeps of a quote row (\<open>fields.values()\<close>). It
  labels the block of the \<open>i\<close>-th leg \<open>leg_i\<close>, which is the name the strategy gives
  that leg, so blocks are matched by position.\<close>

definition quote_fields :: "quote_row \<Rightarrow> leg_pos" where
  "quote_fields q =
     \<lparr> contract = q_contract q, underlying = map_option o_underlying (q_match q),
       expiration = map_option o_expiration (q_match q), otype = map_option o_type (q_match q),
       strike = map_option o_strike (q_match q), cost = q_cost q, order_of = Some (q_order q) \<rparr>"

text \<open>\<open>pd.concat(frames, axis=1)\<close> of per-leg frames over the same index: row \<open>j\<close> holds
  the \<open>j\<close>-th row of every frame.\<close>

definition concat_legs :: "nat \<Rightarrow> leg_pos list list \<Rightarrow> leg_pos list list" where
  "concat_legs n frames = map (\<lambda>j. map (\<lambda>f. if j < length f then f ! j else nan_leg) frames) [0..<n]"

definition sum_leg_costs :: "leg_pos list \<Rightarrow> num" where
  "sum_leg_costs ls = fsum (map cost ls)"

definition sell_options :: "'s backtest \<Rightarrow> strategy \<Rightarrow> state \<Rightarrow> option_row list \<Rightarrow> int \<Rightarrow> error + state" where
  "sell_options bt strat st options date =
     (case get_current_option_quotes bt strat st options of
        Inl e \<Rightarrow> Inl e
      | Inr leg_candidates \<Rightarrow>
          if legs strat = [] then Inl ValueError
          else
            let inv = options_inventory st;
                candidates = map (\<lambda>ls. \<lparr> leg_cols = ls, totals_cost = None, totals_qty = None,
                                           totals_date = None \<rparr>)
                                 (concat_legs (length inv) (map (map quote_fields) leg_candidates));
                imputed_inventory = impute_missing_option_values strat st inv;
                candidates = fillna_frame candidates imputed_inventory;
                candidates = map (\<lambda>(c, held). c\<lparr> totals_cost := sum_leg_costs (leg_cols c),
                                                   totals_qty := totals_qty held,
                                                   totals_date := Some date \<rparr>)
                                 (zip candidates inv);
                total_costs = map (\<lambda>c. fmul (totals_cost c) (totals_qty c)) candidates
            in Inr (st\<lparr> options_inventory := [],
                        trade_log := trade_log st @ candidates,
                        current_cash := fsub (current_cash st) (fsum total_costs) \<rparr>))"

section \<open>Stock entry\<close>

text \<open>\<open>_current_stock_capital\<close>: a left join of the stock inventory with the slice, and
  the pandas \<open>sum\<close> of price times quantity, which skips missing cells.\<close>

definition skipna_sum :: "num list \<Rightarrow> rat" where
  "skipna_sum xs = sum_list (map (\<lambda>x. case x of None \<Rightarrow> 0 | Some v \<Rightarrow> v) xs)"

definition current_stock_capital :: "state \<Rightarrow> stock_row list \<Rightarrow> rat" where
  "current_stock_capital st stocks_slice =
     skipna_sum (concat (map (\<lambda>h. map (\<lambda>r. fmul (Some (adjClose r)) (h_qty h))
                                       (filter (\<lambda>r. s_symbol r = h_symbol h) stocks_slice))
                             (stocks_inventory st)))"

text \<open>A comparison with NaN is false.\<close>

definition flt :: "num \<Rightarrow> num \<Rightarrow> bool" where
  "flt a b = (case a of None \<Rightarrow> False | Some x \<Rightarrow> (case b of None \<Rightarrow> False | Some y \<Rightarrow> x < y))"

text \<open>\<open>if sma_days:\<close> holds for a window that is set and not zero.\<close>

definition truthy :: "nat option \<Rightarrow> bool" where
  "truthy d = (case d of None \<Rightarrow> False | Some n \<Rightarrow> n \<noteq> 0)"

text \<open>The quantity \<open>_buy_stocks\<close> computes for the \<open>i\<close>-th configured stock from the
  \<open>i\<close>-th selected row of the slice.\<close>

definition stock_qty :: "num \<Rightarrow> nat option \<Rightarrow> stock \<Rightarrow> stock_row \<Rightarrow> num" where
  "stock_qty allocation_d sma_days s r =
     (let q = ffloordiv (fmul allocation_d (Some (percentage s))) (Some (adjClose r))
      in if truthy sma_days then (if flt (sma r) (Some (adjClose r)) then q else Some 0) else q)"

text \<open>\<open>_buy_stocks\<close>: the rows of the slice for the configured symbols, in slice order,
  are paired by position with the configured stocks; arrays of different lengths make
  the frame constructor raise.\<close>

definition inventory_stocks :: "'s backtest \<Rightarrow> stock_row list \<Rightarrow> stock_row list" where
  "inventory_stocks bt stocks_slice =
     (let stock_symbols = map symbol (stocks bt)
      in filter (\<lambda>r. s_symbol r \<in> set stock_symbols) stocks_slice)"

definition buy_stocks :: "'s backtest \<Rightarrow> state \<Rightarrow> stock_row list \<Rightarrow> num \<Rightarrow> nat option \<Rightarrow> error + state" where
  "buy_stocks bt st stocks_slice allocation_d sma_days =
     (if length (inventory_stocks bt stocks_slice) \<noteq> length (stocks bt) then Inl ValueError
      else Inr (st\<lparr> stocks_inventory :=
                      map (\<lambda>(s, r). \<lparr> h_symbol = symbol s, h_price = adjClose r,
                                      h_qty = stock_qty allocation_d sma_days s r \<rparr>)
                          (zip (stocks bt) (inventory_stocks bt stocks_slice)) \<rparr>))"

section \<open>Option entry\<close>

text \<open>The entry row of a leg for one candidate of the slice: the cost is the quote of the
  leg's direction, negated for a SELL leg, times the shares per contract.\<close>

definition entry_cost :: "rat \<Rightarrow> direction \<Rightarrow> option_row \<Rightarrow> rat" where
  "entry_cost spc d r = (if d = SELL then - price_col d r else price_col d r) * spc"

definition entry_row :: "'s backtest \<Rightarrow> leg \<Rightarrow> option_row \<Rightarrow> leg_pos" where
  "entry_row bt l r =
     \<lparr> contract = Some (optionroot r), underlying = Some (o_underlying r),
       expiration = Some (o_expiration r), otype = Some (o_type r), strike = Some (o_strike r),
       cost = Some (entry_cost (shares_per_contract bt) (leg_direction l) r),
       order_of = Some (get_order (leg_direction l) ENTRY) \<rparr>"

definition leg_entries :: "'s backtest \<Rightarrow> option_row list \<Rightarrow> leg \<Rightarrow> leg_pos list" where
  "leg_entries bt subset_options l = map (entry_row bt l) (filter (entry_filter l) subset_options)"

text \<open>The frame \<open>entry_signals\<close>: the legs' candidate rows are aligned by position
  (the indexes were reset), so row \<open>j\<close> exists up to the longest leg, and a leg with
  fewer rows is NaN there, as is the sum of costs.\<close>

definition entry_signals :: "leg_pos list list \<Rightarrow> num \<Rightarrow> int \<Rightarrow> combination list" where
  "entry_signals per_leg options_allocation date =
     map (\<lambda>ls. let total_cost = sum_leg_costs ls
                in \<lparr> leg_cols = ls, totals_cost = total_cost,
                     totals_qty = fabs (ffloordiv options_allocation total_cost),
                     totals_date = Some date \<rparr>)
         (concat_legs (foldr max (map length per_leg) 0) per_leg)"

text \<open>\<open>_pick_entry_signals\<close>: the first row when there is one.\<close>

definition pick_entry_signals :: "combination list \<Rightarrow> combination list" where
  "pick_entry_signals signals = (case signals of [] \<Rightarrow> [] | e # _ \<Rightarrow> [e])"

text \<open>The slice without the contracts already in the inventory.\<close>

definition subset_options :: "strategy \<Rightarrow> state \<Rightarrow> option_row list \<Rightarrow> option_row list" where
  "subset_options strat st options =
     (let inventory_contracts =
            concat (map (\<lambda>(i, l). map (\<lambda>c. contract (leg_at c i)) (options_inventory st))
                        (enumerate 0 (legs strat)))
      in filter (\<lambda>r. Some (optionroot r) \<notin> set inventory_contracts) options)"

text \<open>\<open>_execute_option_entries\<close>. With no legs the frame of totals cannot be built from
  scalars and the constructor raises. A leg without candidates ends the call with
  nothing changed.\<close>

definition execute_option_entries :: "'s backtest \<Rightarrow> strategy \<Rightarrow> state \<Rightarrow> int \<Rightarrow> option_row list \<Rightarrow> num \<Rightarrow> error + state" where
  "execute_option_entries bt strat st date options options_allocation =
     (let per_leg = map (leg_entries bt (subset_options strat st options)) (legs strat)
      in if [] \<in> set per_leg then Inr st
         else if legs strat = [] then Inl ValueError
         else
           let signals = entry_signals per_leg options_allocation date;
               entries = pick_entry_signals signals
           in Inr (st\<lparr> options_inventory := options_inventory st @ entries,
                       trade_log := trade_log st @ entries,
                       current_cash := fsub (current_cash st) (fsum (map totals_cost signals)) \<rparr>))"

section \<open>Rebalance\<close>

definition stocks_value :: "state \<Rightarrow> num" where
  "stocks_value st = fsum (map (\<lambda>h. fmul (Some (h_price h)) (h_qty h)) (stocks_inventory st))"

definition options_value :: "state \<Rightarrow> num" where
  "options_value st = fsum (map (\<lambda>c. fmul (totals_cost c) (totals_qty c)) (options_inventory st))"

definition rebalance_portfolio :: "'s backtest \<Rightarrow> strategy \<Rightarrow> state \<Rightarrow> int \<Rightarrow> stock_row list \<Rightarrow> option_row list \<Rightarrow> nat option \<Rightarrow> error + state" where
  "rebalance_portfolio bt strat st date stocks_slice options sma_days =
     (case sell_options bt strat st options date of
        Inl e \<Rightarrow> Inl e
      | Inr st1 \<Rightarrow>
          let stock_capital = current_stock_capital st1 stocks_slice;
              total_capital = fadd (current_cash st1) (Some stock_capital);
              options_allocation = fmul (Some (options_frac (allocation bt))) total_capital;
              stocks_allocation = fmul (Some (stocks_frac (allocation bt))) total_capital;
              st2 = initialize_inventories st1
          in (case buy_stocks bt st2 stocks_slice stocks_allocation sma_days of
                Inl e \<Rightarrow> Inl e
              | Inr st3 \<Rightarrow>
                  (case execute_option_entries bt strat st3 date options options_allocation of
                     Inl e \<Rightarrow> Inl e
                   | Inr st4 \<Rightarrow>
                       Inr (st4\<lparr> current_cash :=
                                  fsub (fsub total_capital (options_value st4)) (stocks_value st4) \<rparr>))))"

section \<open>Filter-driven option exits\<close>

text \<open>The columns \<open>_execute_option_exits\<close> keeps of a quote row: it reindexes by the
  slice's own column names (\<open>fields.keys()\<close>), so the contract is the slice's and the
  cost is the raw quote of the closing side.\<close>

definition exit_fields :: "direction \<Rightarrow> quote_row \<Rightarrow> leg_pos" where
  "exit_fields d q =
     \<lparr> contract = map_option optionroot (q_match q), underlying = map_option o_underlying (q_match q),
       expiration = map_option o_expiration (q_match q), otype = map_option o_type (q_match q),
       strike = map_option o_strike (q_match q),
       cost = map_option (price_col (invert d)) (q_match q), order_of = Some (q_order q) \<rparr>"

text \<open>Lines 402 to 409: per leg, the exit predicate or the missing-contract mask.\<close>

definition filter_masks :: "strategy \<Rightarrow> quote_row list list \<Rightarrow> bool list list" where
  "filter_masks strat quotes =
     map (\<lambda>(l, qs). map (\<lambda>q. exit_filter l q \<or> q_cost q = None) qs) (zip (legs strat) quotes)"

text \<open>\<open>_execute_option_exits\<close>. The sum of costs at line 424 iterates over \<open>self.legs\<close>;
  the class defines the attributes \<open>stocks\<close>, \<open>options_strategy\<close>, \<open>stocks_data\<close> and
  \<open>options_data\<close> and no \<open>legs\<close>, so the lookup raises before the thresholds, the exit mask
  and the updates of inventory, trade log and cash are reached.\<close>

definition execute_option_exits :: "'s backtest \<Rightarrow> strategy \<Rightarrow> state \<Rightarrow> int \<Rightarrow> option_row list \<Rightarrow> error + state" where
  "execute_option_exits bt strat st date options =
     (case get_current_option_quotes bt strat st options of
        Inl e \<Rightarrow> Inl e
      | Inr current_options_quotes \<Rightarrow>
          if legs strat = [] then Inl ValueError
          else
            let masks = filter_masks strat current_options_quotes;
                exit_candidates =
                  map (\<lambda>ls. \<lparr> leg_cols = ls, totals_cost = None, totals_qty = None, totals_date = None \<rparr>)
                      (concat_legs (length (options_inventory st))
                         (map (\<lambda>(l, qs). map (exit_fields (leg_direction l)) qs)
                              (zip (legs strat) current_options_quotes)));
                exit_candidates = impute_missing_option_values strat st exit_candidates;
                qtys = map totals_qty (options_inventory st)
            in Inl AttributeError)"

section \<open>The balance ledger\<close>

text \<open>\<open>Series.unique()\<close>: the values in order of first appearance.\<close>

definition unique :: "'a list \<Rightarrow> 'a list" where
  "unique xs = rev (remdups (rev xs))"

definition in_period :: "int \<Rightarrow> int \<Rightarrow> int \<Rightarrow> bool" where
  "in_period start_d end_d d = (start_d \<le> d \<and> d < end_d)"

text \<open>The positions \<open>_update_balance\<close> values: for every leg and every contract of that
  leg's inventory column, whether a row holding the contract is a call, the leg's
  direction, the contract and the quantity of the first row holding it. A missing
  contract selects no row, and reading the first quantity raises.\<close>

definition held_position :: "state \<Rightarrow> nat \<Rightarrow> leg \<Rightarrow> combination \<Rightarrow> error + (bool \<times> direction \<times> string \<times> num)" where
  "held_position st i l c =
     (case contract (leg_at c i) of
        None \<Rightarrow> Inl IndexError
      | Some k \<Rightarrow>
          (case filter (\<lambda>c'. contract (leg_at c' i) = Some k) (options_inventory st) of
             [] \<Rightarrow> Inl IndexError
           | c0 # cs \<Rightarrow> Inr (\<exists>c' \<in> set (c0 # cs). otype (leg_at c' i) = Some ''call'',
                              leg_direction l, k, totals_qty c0)))"

definition held_positions :: "strategy \<Rightarrow> state \<Rightarrow> error + (bool \<times> direction \<times> string \<times> num) list" where
  "held_positions strat st =
     collect (concat (map (\<lambda>(i, l). map (held_position st i l) (options_inventory st))
                          (enumerate 0 (legs strat))))"

text \<open>The value of one held contract on one day of the period: the quote of the closing
  side times quantity times shares per contract, NaN on a day without a quote. (A leg
  holds a contract in one row, and a day quotes a contract once.)\<close>

definition contract_value :: "rat \<Rightarrow> option_row list \<Rightarrow> int \<Rightarrow> (bool \<times> direction \<times> string \<times> num) \<Rightarrow> num" where
  "contract_value spc options_period day p =
     (case p of (is_call, d, k, qty) \<Rightarrow>
        (case find (\<lambda>r. optionroot r = k \<and> quotedate r = day) options_period of
           None \<Rightarrow> None
         | Some r \<Rightarrow> fmul (fmul (Some (price_col (invert d) r)) qty) (Some spc)))"

text \<open>\<open>calls_value\<close> and \<open>puts_value\<close> at one day: zero plus the value of every held
  call (put); a day outside the quoted days of the period has no cell.\<close>

definition options_capital_at :: "rat \<Rightarrow> option_row list \<Rightarrow> (bool \<times> direction \<times> string \<times> num) list \<Rightarrow> bool \<Rightarrow> int \<Rightarrow> num" where
  "options_capital_at spc options_period positions want_calls day =
     (if day \<in> set (map quotedate options_period)
      then foldl fadd (Some 0)
             (map (contract_value spc options_period day)
                  (filter (\<lambda>p. fst p = want_calls) positions))
      else None)"

text \<open>The column of one configured stock at one day: quantity times adjusted close of
  the inventory's row for the symbol, NaN when the inner join has no row.\<close>

definition stock_capital_at :: "state \<Rightarrow> stock_row list \<Rightarrow> int \<Rightarrow> string \<Rightarrow> num" where
  "stock_capital_at st stocks_period day k =
     (case find (\<lambda>h. h_symbol h = k) (stocks_inventory st) of
        None \<Rightarrow> None
      | Some h \<Rightarrow>
          (case find (\<lambda>r. s_symbol r = k \<and> s_date r = day) stocks_period of
             None \<Rightarrow> None
           | Some r \<Rightarrow> fmul (h_qty h) (Some (adjClose r))))"

text \<open>The frame \<open>add\<close> of \<open>_update_balance\<close>, computed from the inventories and the cash of
  the state it is given, over the days of the period on which a held, configured stock
  has a price, in date order.\<close>

definition ledger_rows :: "'s backtest \<Rightarrow> state \<Rightarrow> (bool \<times> direction \<times> string \<times> num) list \<Rightarrow> stock_row list \<Rightarrow> option_row list \<Rightarrow> balance_row list" where
  "ledger_rows bt st positions stocks_period options_period =
     (let syms = map symbol (stocks bt);
          days = sort (unique (map s_date
                   (filter (\<lambda>r. s_symbol r \<in> set syms \<and> s_symbol r \<in> set (map h_symbol (stocks_inventory st)))
                           stocks_period)))
      in map (\<lambda>day. \<lparr> b_date = day, b_total_capital = None, b_cash = current_cash st,
                       b_stock = map (\<lambda>k. (k, stock_capital_at st stocks_period day k)) syms,
                       b_options_qty = Some (skipna_sum (map totals_qty (options_inventory st))),
                       b_calls_capital = options_capital_at (shares_per_contract bt) options_period positions True day,
                       b_puts_capital = options_capital_at (shares_per_contract bt) options_period positions False day,
                       b_stocks_qty = Some (skipna_sum (map h_qty (stocks_inventory st))),
                       b_options_capital = None, b_stocks_capital = None \<rparr>) days)"

text \<open>\<open>_update_balance\<close>: with no configured stock there is nothing to concatenate and
  pandas raises.\<close>

definition update_balance :: "'s backtest \<Rightarrow> strategy \<Rightarrow> state \<Rightarrow> int \<Rightarrow> int \<Rightarrow> stock_row list \<Rightarrow> option_row list \<Rightarrow> error + state" where
  "update_balance bt strat st start_d end_d stocks_all options_all =
     (let stocks_period = filter (\<lambda>r. in_period start_d end_d (s_date r)) stocks_all;
          options_period = filter (\<lambda>r. in_period start_d end_d (quotedate r)) options_all
      in case held_positions strat st of
           Inl e \<Rightarrow> Inl e
         | Inr positions \<Rightarrow>
             if stocks bt = [] then Inl ValueError
             else Inr (st\<lparr> balance := balance st @ ledger_rows bt st positions stocks_period options_period \<rparr>))"

section \<open>The run\<close>

record market =
  stocks_data :: "stock_row list"
  options_data :: "option_row list"
  start_date :: int
  end_date :: int
  data_iterator :: "(int \<times> stock_row list \<times> option_row list) list"

text \<open>\<open>rebalancing_days.get_loc(date)\<close> is a position only for a date that occurs once;
  for a repeated date it is a slice or a mask, and the arithmetic on it raises.\<close>

definition get_loc :: "int list \<Rightarrow> int \<Rightarrow> error + nat" where
  "get_loc days d =
     (if count_list days d = 1 then Inr (length (takeWhile (\<lambda>x. x \<noteq> d) days)) else Inl TypeError)"

text \<open>The body of the loop of \<open>run\<close> for one element of the data stream: on a rebalancing
  day, first the ledger for the period since the previous rebalancing day, then the
  rebalance.\<close>

definition run_step :: "'s backtest \<Rightarrow> strategy \<Rightarrow> market \<Rightarrow> int list \<Rightarrow> nat option \<Rightarrow> state \<Rightarrow> (int \<times> stock_row list \<times> option_row list) \<Rightarrow> error + state" where
  "run_step bt strat mkt rebalancing_days sma_days st x =
     (case x of (date, stocks_slice, options) \<Rightarrow>
        if date \<in> set rebalancing_days then
          (case get_loc rebalancing_days date of
             Inl e \<Rightarrow> Inl e
           | Inr loc \<Rightarrow>
               let previous_rb_date = (if loc \<noteq> 0 then rebalancing_days ! (loc - 1) else date)
               in (case update_balance bt strat st previous_rb_date date (stocks_data mkt) (options_data mkt) of
                     Inl e \<Rightarrow> Inl e
                   | Inr st1 \<Rightarrow> rebalance_portfolio bt strat st1 date stocks_slice options sma_days))
        else Inr st)"

fun run_loop :: "'s backtest \<Rightarrow> strategy \<Rightarrow> market \<Rightarrow> int list \<Rightarrow> nat option \<Rightarrow> state \<Rightarrow> (int \<times> stock_row list \<times> option_row list) list \<Rightarrow> error + state" where
  "run_loop bt strat mkt rebalancing_days sma_days st [] = Inr st"
| "run_loop bt strat mkt rebalancing_days sma_days st (x # xs) =
     (case run_step bt strat mkt rebalancing_days sma_days st x of
        Inl e \<Rightarrow> Inl e
      | Inr st' \<Rightarrow> run_loop bt strat mkt rebalancing_days sma_days st' xs)"

text \<open>\<open>Series.add(other, level, fill_value)\<close> on two columns of the same frame: the two
  indexes are equal, so nothing is aligned and \<open>level\<close> is not consulted; a cell missing
  on one side only is replaced by \<open>fill_value\<close> before the addition.\<close>

definition series_add :: "num \<Rightarrow> num \<Rightarrow> 'level \<Rightarrow> num \<Rightarrow> num" where
  "series_add a b level fill_value =
     (if a = None \<and> b = None then None else fadd (fillna a fill_value) (fillna b fill_value))"

text \<open>Lines 130 to 134: the derived columns. The call at line 132 passes the options
  capital as the second positional argument of \<open>add\<close>, which is \<open>level\<close>.\<close>

definition derive_columns :: "'s backtest \<Rightarrow> balance_row \<Rightarrow> balance_row" where
  "derive_columns bt r =
     (let options_capital = fadd (b_calls_capital r) (b_puts_capital r);
          stocks_capital = fsum (map (\<lambda>s. stock_col r (symbol s)) (stocks bt))
      in r\<lparr> b_options_capital := options_capital,
            b_stocks_capital := stocks_capital,
            b_total_capital := series_add (b_cash r) stocks_capital options_capital (Some 0) \<rparr>)"

definition initial_state :: "'s backtest \<Rightarrow> market \<Rightarrow> state" where
  "initial_state bt mkt =
     \<lparr> current_cash = Some (initial_capital bt),
       trade_log = [],
       balance = [\<lparr> b_date = start_date mkt - 1, b_total_capital = Some (initial_capital bt),
                    b_cash = Some (initial_capital bt), b_stock = [], b_options_qty = None,
                    b_calls_capital = None, b_puts_capital = None, b_stocks_qty = None,
                    b_options_capital = None, b_stocks_capital = None \<rparr>],
       options_inventory = [],
       stocks_inventory = [] \<rparr>"

text \<open>\<open>run\<close>. The business-month-start dates pandas generates for the rebalance
  frequency (none for frequency 0) are the parameter \<open>bms_days\<close>; the first day is
  prepended. The stream of dates with their slices, daily or monthly, is the market's
  \<open>data_iterator\<close>. The assertions on the data handlers (data set, schemas equal) are
  not modelled; the percentage change and the accumulated return, computed from the
  total capital afterwards, are not part of the model either.\<close>

definition run :: "strategy backtest \<Rightarrow> market \<Rightarrow> int list \<Rightarrow> nat option \<Rightarrow> error + state" where
  "run bt mkt bms_days sma_days =
     (case options_strategy bt of
        None \<Rightarrow> Inl AssertionError
      | Some strat \<Rightarrow>
          if \<not> list_all (\<lambda>s. symbol s \<in> set (map s_symbol (stocks_data mkt))) (stocks bt) then Inl AssertionError
          else if unique (map s_date (stocks_data mkt)) \<noteq> unique (map quotedate (options_data mkt))
          then Inl AssertionError
          else
            let rebalancing_days = start_date mkt # bms_days
            in (case run_loop bt strat mkt rebalancing_days sma_days (initial_state bt mkt) (data_iterator mkt) of
                  Inl e \<Rightarrow> Inl e
                | Inr st \<Rightarrow>
                    (case update_balance bt strat st (last rebalancing_days) (end_date mkt)
                            (stocks_data mkt) (options_data mkt) of
                       Inl e \<Rightarrow> Inl e
                     | Inr st' \<Rightarrow> Inr (st'\<lparr> balance := map (derive_columns bt) (balance st') \<rparr>))))"

section \<open>Scenarios\<close>


text \<open>A call on AAA with the given contract id, bid, ask and quote day.\<close>

definition quote :: "string \<Rightarrow> rat \<Rightarrow> rat \<Rightarrow> int \<Rightarrow> option_row" where
  "quote k b a d = \<lparr> optionroot = k, o_underlying = ''AAA'', o_expiration = 100, o_type = ''call'',
     o_strike = 50, bid = b, ask = a, quotedate = d \<rparr>"

text \<open>A two-leg vertical spread: buy contract C1, sell contract C2, 100 shares per
  contract.\<close>

definition spread_strategy :: strategy where
  "spread_strategy =
     \<lparr> legs = [\<lparr> leg_name = ''leg_1'', leg_direction = BUY,
                  entry_filter = (\<lambda>r. optionroot r = ''C1''), exit_filter = (\<lambda>q. False) \<rparr>,
                \<lparr> leg_name = ''leg_2'', leg_direction = SELL,
                  entry_filter = (\<lambda>r. optionroot r = ''C2''), exit_filter = (\<lambda>q. False) \<rparr>],
       filter_thresholds = (\<lambda>a b. False) \<rparr>"

definition spread_backtest :: "strategy backtest" where
  "spread_backtest =
     \<lparr> allocation = \<lparr> stocks_frac = 3 / 5, options_frac = 2 / 5, cash_frac = 0 \<rparr>,
       initial_capital = 100000, stop_if_broke = True, shares_per_contract = 100,
       stocks = [\<lparr> symbol = ''AAA'', percentage = 1 \<rparr>], options_strategy = Some spread_strategy \<rparr>"

definition flat_state :: "rat \<Rightarrow> state" where
  "flat_state c = \<lparr> current_cash = Some c, trade_log = [], balance = [], options_inventory = [],
     stocks_inventory = [] \<rparr>"

text \<open>The bought leg is priced 2.00 (ask) and the sold leg 1.20 (bid): a net debit of 80
  per unit.\<close>

definition debit_slice :: "option_row list" where
  "debit_slice = [quote ''C1'' (19 / 10) 2 5, quote ''C2'' (6 / 5) (13 / 10) 5]"


text \<open>Cost per unit and quantity of the rows of the options inventory after a call.\<close>

definition entered_totals :: "error + state \<Rightarrow> (num \<times> num) list" where
  "entered_totals r =
     (case r of Inl e \<Rightarrow> [] | Inr s \<Rightarrow> map (\<lambda>c. (totals_cost c, totals_qty c)) (options_inventory s))"

text \<open>The cash after a call.\<close>

definition cash_of :: "error + state \<Rightarrow> num" where
  "cash_of r = (case r of Inl e \<Rightarrow> None | Inr s \<Rightarrow> current_cash s)"

text \<open>A strategy with one leg that buys the call C1.\<close>

definition long_call_strategy :: strategy where
  "long_call_strategy =
     \<lparr> legs = [\<lparr> leg_name = ''leg_1'', leg_direction = BUY,
                  entry_filter = (\<lambda>r. optionroot r = ''C1''), exit_filter = (\<lambda>q. False) \<rparr>],
       filter_thresholds = (\<lambda>a b. False) \<rparr>"

definition long_backtest :: "strategy backtest" where
  "long_backtest =
     \<lparr> allocation = \<lparr> stocks_frac = 3 / 5, options_frac = 2 / 5, cash_frac = 0 \<rparr>,
       initial_capital = 100000, stop_if_broke = True, shares_per_contract = 100,
       stocks = [\<lparr> symbol = ''AAA'', percentage = 1 \<rparr>], options_strategy = Some long_call_strategy \<rparr>"

text \<open>The state after 50 units of C1 were entered at 2.00 (200 per unit).\<close>

definition held_long :: state where
  "held_long =
     \<lparr> current_cash = Some 90000, trade_log = [], balance = [],
       options_inventory =
         [\<lparr> leg_cols = [\<lparr> contract = Some ''C1'', underlying = Some ''AAA'', expiration = Some 100,
                          otype = Some ''call'', strike = Some 50, cost = Some 200,
                          order_of = Some BTO \<rparr>],
            totals_cost = Some 200, totals_qty = Some 50, totals_date = Some 5 \<rparr>],
       stocks_inventory = [] \<rparr>"

text \<open>Leg costs, cost per unit and quantity of the rows of the trade log after a call.\<close>

definition closed_rows :: "error + state \<Rightarrow> (num list \<times> num \<times> num) list" where
  "closed_rows r =
     (case r of Inl e \<Rightarrow> []
      | Inr s \<Rightarrow> map (\<lambda>c. (map cost (leg_cols c), totals_cost c, totals_qty c)) (trade_log s))"

text \<open>Three days of data: AAA at 50, the call C1 at bid 1.90 and ask 2.00.\<close>

definition aaa :: "int \<Rightarrow> rat \<Rightarrow> stock_row" where
  "aaa d p = \<lparr> s_symbol = ''AAA'', s_date = d, adjClose = p, sma = None \<rparr>"

definition long_market :: market where
  "long_market =
     \<lparr> stocks_data = [aaa 1 50, aaa 2 50, aaa 3 50],
       options_data = [quote ''C1'' (19 / 10) 2 1, quote ''C1'' (19 / 10) 2 2, quote ''C1'' (19 / 10) 2 3],
       start_date = 1, end_date = 3,
       data_iterator = [(1, [aaa 1 50], [quote ''C1'' (19 / 10) 2 1]),
                        (2, [aaa 2 50], [quote ''C1'' (19 / 10) 2 2]),
                        (3, [aaa 3 50], [quote ''C1'' (19 / 10) 2 3])] \<rparr>"

text \<open>Date, cash, stocks capital, options capital and total capital of the rows of the
  ledger after a run.\<close>

definition ledger :: "error + state \<Rightarrow> (int \<times> num \<times> num \<times> num \<times> num) list" where
  "ledger r =
     (case r of Inl e \<Rightarrow> []
      | Inr s \<Rightarrow> map (\<lambda>b. (b_date b, b_cash b, b_stocks_capital b, b_options_capital b, b_total_capital b))
                      (balance s))"






text \<open>The quantities of the stock inventory after a run.\<close>

definition stock_qtys :: "error + state \<Rightarrow> num list" where
  "stock_qtys r = (case r of Inl e \<Rightarrow> [] | Inr s \<Rightarrow> map h_qty (stocks_inventory s))"


text \<open>The state of the three-day run after the rebalance of day 1: 1200 shares of AAA,
  200 units of C1, no cash.\<close>

definition day1_state :: state where
  "day1_state =
     \<lparr> current_cash = Some 0,
       trade_log =
         [\<lparr> leg_cols = [\<lparr> contract = Some ''C1'', underlying = Some ''AAA'', expiration = Some 100,
                          otype = Some ''call'', strike = Some 50, cost = Some 200,
                          order_of = Some BTO \<rparr>],
            totals_cost = Some 200, totals_qty = Some 200, totals_date = Some 1 \<rparr>],
       balance =
         [\<lparr> b_date = 0, b_total_capital = Some 100000, b_cash = Some 100000, b_stock = [],
            b_options_qty = None, b_calls_capital = None, b_puts_capital = None, b_stocks_qty = None,
            b_options_capital = None, b_stocks_capital = None \<rparr>],
       options_inventory =
         [\<lparr> leg_cols = [\<lparr> contract = Some ''C1'', underlying = Some ''AAA'', expiration = Some 100,
                          otype = Some ''call'', strike = Some 50, cost = Some 200,
                          order_of = Some BTO \<rparr>],
            totals_cost = Some 200, totals_qty = Some 200, totals_date = Some 1 \<rparr>],
       stocks_inventory = [\<lparr> h_symbol = ''AAA'', h_price = 50, h_qty = Some 1200 \<rparr>] \<rparr>"

text \<open>Date, cash, per-stock capital and calls capital of ledger rows.\<close>

definition ledger_cells :: "balance_row list \<Rightarrow> (int \<times> num \<times> (string \<times> num) list \<times> num) list" where
  "ledger_cells rows = map (\<lambda>b. (b_date b, b_cash b, b_stock b, b_calls_capital b)) rows"


text \<open>Two configured stocks at 50% each, and a slice that lists them in that order among
  other symbols.\<close>

definition two_stock_backtest :: "strategy backtest" where
  "two_stock_backtest =
     \<lparr> allocation = \<lparr> stocks_frac = 3 / 5, options_frac = 2 / 5, cash_frac = 0 \<rparr>,
       initial_capital = 100000, stop_if_broke = True, shares_per_contract = 100,
       stocks = [\<lparr> symbol = ''AAA'', percentage = 1 / 2 \<rparr>, \<lparr> symbol = ''BBB'', percentage = 1 / 2 \<rparr>],
       options_strategy = Some long_call_strategy \<rparr>"



text \<open>The exact sum of the three stored fractions, when all are finite.\<close>

definition stored_sum :: "error + float_alloc \<Rightarrow> rat option" where
  "stored_sum r =
     (case r of Inl e \<Rightarrow> None
      | Inr f \<Rightarrow> (case (stocks_fl f, options_fl f, cash_fl f) of
                    (Fin x, Fin y, Fin z) \<Rightarrow> Some (x + y + z)
                  | _ \<Rightarrow> None))"

text \<open>Values of mixed sign that nearly cancel: -2.0, 1.9 and 0.1 as Python reads these
  literals.\<close>

definition mixed_allocation :: "string \<rightharpoonup> rat" where
  "mixed_allocation = [''stocks'' \<mapsto> - 2, ''options'' \<mapsto> round_double (19 / 10),
                       ''cash'' \<mapsto> round_double (1 / 10)]"


text \<open>The values 60, 30 and 10.\<close>

definition plain_allocation :: "string \<rightharpoonup> rat" where
  "plain_allocation = [''stocks'' \<mapsto> 60, ''options'' \<mapsto> 30, ''cash'' \<mapsto> 10]"


text \<open>The slice of day 2 when the call C1 is no longer quoted.\<close>

definition expired_slice :: "option_row list" where
  "expired_slice = [quote ''C9'' 1 (11 / 10) 2]"


text \<open>The same two stocks listed in the other order, and the rows of the stock inventory
  after a call.\<close>

definition swapped_slice :: "stock_row list" where
  "swapped_slice =
     [\<lparr> s_symbol = ''BBB'', s_date = 1, adjClose = 1, sma = None \<rparr>,
      \<lparr> s_symbol = ''AAA'', s_date = 1, adjClose = 100, sma = None \<rparr>]"

definition holdings_of :: "error + state \<Rightarrow> (string \<times> rat \<times> num) list" where
  "holdings_of r =
     (case r of Inl e \<Rightarrow> []
      | Inr s \<Rightarrow> map (\<lambda>h. (h_symbol h, h_price h, h_qty h)) (stocks_inventory s))"

section \<open>Properties of the constructor\<close>

lemma total_allocation_unfold:
  "total_allocation a = dict_get a ''stocks'' + dict_get a ''options'' + dict_get a ''cash''"
  by (simp add: total_allocation_def assets_def)

text \<open>
  C10. When the values for stocks, options and cash sum to zero (the empty dict, for
  example) the constructor raises a division-by-zero error and builds no instance.
\<close>

theorem zero_allocation_raises:
  assumes "dict_get a ''stocks'' + dict_get a ''options'' + dict_get a ''cash'' = 0"
  shows "(Backtest_init a ic spc :: error + 'strat backtest) = Inl ZeroDivisionError"
  using assms by (simp add: Backtest_init_def total_allocation_unfold)

theorem zero_allocation_raises_witness:
  "dict_get Map.empty ''stocks'' + dict_get Map.empty ''options'' + dict_get Map.empty ''cash'' = 0
   \<and> (Backtest_init Map.empty 1000000 100 :: error + unit backtest) = Inl ZeroDivisionError"
  using zero_allocation_raises [of Map.empty 1000000 100]
  by (simp add: dict_get_def)

section \<open>Option entry: quantity and cash\<close>











text \<open>
  C2. On the debit spread (80 per unit, target 10,000) the entry appends the combination
  with quantity 125 to the inventory, and the cash goes from 100,000 to 99,920: line 387
  subtracts the sum of the candidates' costs per unit, 80, and not cost times quantity,
  10,000.
\<close>

theorem entry_debits_unit_costs:
  "entered_totals (execute_option_entries spread_backtest spread_strategy (flat_state 100000) 5
      debit_slice (Some 10000)) = [(Some 80, Some 125)]
   \<and> cash_of (execute_option_entries spread_backtest spread_strategy (flat_state 100000) 5
      debit_slice (Some 10000)) = Some (100000 - 80)
   \<and> (100000 - 80 :: rat) \<noteq> 100000 - 80 * 125"
  by code_simp


section \<open>Forced close and imputation\<close>

lemma exit_path_imputes_zero:
  "map (\<lambda>c. map cost (leg_cols c))
     (impute_missing_option_values long_call_strategy held_long
        [\<lparr> leg_cols = [nan_leg\<lparr> order_of := Some STC \<rparr>], totals_cost = None, totals_qty = None,
            totals_date = None \<rparr>]) = [[Some 0]]"
  by code_simp

text \<open>
  C7. The inventory holds 50 units of C1, entered at 200 per unit, and the day's slice
  does not quote C1. The forced close logs the leg with cost 200, the entry cost, and
  not 0, and takes 200 * 50 from the cash: line 212 imputes the inventory with itself, so
  the frame that fills the missing cells at line 213 still carries the entry costs.
\<close>

theorem forced_close_keeps_entry_cost:
  "closed_rows (sell_options long_backtest long_call_strategy held_long [quote ''C9'' 1 (11 / 10) 6] 6)
     = [([Some 200], Some 200, Some 50)]
   \<and> cash_of (sell_options long_backtest long_call_strategy held_long [quote ''C9'' 1 (11 / 10) 6] 6)
     = Some (90000 - 200 * 50)"
  by code_simp


section \<open>Filter-driven exits\<close>

text \<open>
  C6. Filter-driven exit execution never returns: with one held contract that the slice
  does not quote, the call ends in the AttributeError of line 424, and for no input does
  it produce a state, so no exit set is formed.
\<close>

theorem option_exits_raise:
  "execute_option_exits long_backtest long_call_strategy held_long 6 [quote ''C9'' 1 (11 / 10) 6]
     = Inl AttributeError
   \<and> (\<forall>st'. execute_option_exits bt strat st date options \<noteq> Inr st')"
proof
  show "execute_option_exits long_backtest long_call_strategy held_long 6 [quote ''C9'' 1 (11 / 10) 6]
     = Inl AttributeError"
    by code_simp
  show "\<forall>st'. execute_option_exits bt strat st date options \<noteq> Inr st'"
    by (simp add: execute_option_exits_def Let_def split: sum.splits)
qed


section \<open>The derived ledger columns\<close>

lemma derived_total_ignores_options:
  "b_total_capital (derive_columns bt (r\<lparr> b_calls_capital := x, b_puts_capital := y \<rparr>))
     = b_total_capital (derive_columns bt r)"
  by (simp add: derive_columns_def Let_def series_add_def stock_col_def)

text \<open>
  C1. A run over three days that holds 1200 shares of AAA and 200 units of the call C1
  and has no cash left: on days 1 and 2 the ledger has cash 0, stocks capital 60,000 and
  options capital 38,000, and its total capital is 60,000, not 98,000.
\<close>

theorem total_capital_omits_options:
  "ledger (run long_backtest long_market [] None)
     = [(0, Some 100000, None, None, Some 100000),
        (1, Some 0, Some 60000, Some 38000, Some 60000),
        (2, Some 0, Some 60000, Some 38000, Some 60000)]
   \<and> (0 + 60000 + 38000 :: rat) \<noteq> 60000"
  by code_simp

section \<open>Stock entry\<close>






text \<open>Symbols, percentages and prices are paired by position: when the slice lists the
  configured stocks in another order, a stock is entered at the other stock's price.\<close>

lemma stock_entry_pairs_by_position:
  "holdings_of (buy_stocks two_stock_backtest (flat_state 100000) swapped_slice (Some 1000) None)
     = [(''AAA'', 1, Some 500), (''BBB'', 100, Some 5)]"
  by code_simp



section \<open>Forced close at a rebalance\<close>

lemma filter_distinct_key_le1:
  assumes "distinct (map optionroot opts)"
  shows "length (filter (\<lambda>r. Some (optionroot r) = k) opts) \<le> 1"
  using assms
proof (induction opts)
  case Nil
  then show ?case by simp
next
  case (Cons r rs)
  show ?case
  proof (cases "Some (optionroot r) = k")
    case True
    with Cons.prems have "filter (\<lambda>r'. Some (optionroot r') = k) rs = []"
      by (force simp: filter_empty_conv image_iff)
    with True show ?thesis by simp
  next
    case False
    with Cons show ?thesis by simp
  qed
qed

lemma left_merge_length:
  assumes "distinct (map optionroot opts)"
  shows "length (left_merge keys opts) = length keys"
proof (induction keys)
  case Nil
  then show ?case by (simp add: left_merge_def)
next
  case (Cons k ks)
  have "length (case filter (\<lambda>r. Some (optionroot r) = k) opts of
                  [] \<Rightarrow> [(k, None)] | ms \<Rightarrow> map (\<lambda>m. (k, Some m)) ms) = 1"
    using filter_distinct_key_le1 [OF assms, of k]
    by (cases "filter (\<lambda>r. Some (optionroot r) = k) opts") auto
  with Cons show ?case by (simp add: left_merge_def)
qed

lemma collect_all_Inr:
  assumes "\<forall>x \<in> set xs. \<exists>v. x = Inr v"
  shows "\<exists>vs. collect xs = Inr vs"
  using assms by (induction xs) auto

lemma quotes_exist:
  assumes "distinct (map optionroot options)"
  shows "\<exists>qs. get_current_option_quotes bt strat st options = Inr qs"
  unfolding get_current_option_quotes_def
  by (rule collect_all_Inr) (auto simp: leg_quotes_def Let_def left_merge_length [OF assms])

lemma fillna_frame_length: "length (fillna_frame a b) = length a"
  by (simp add: fillna_frame_def)

lemma concat_legs_length: "length (concat_legs n frames) = n"
  by (simp add: concat_legs_def)

text \<open>
  What the forced close does for a strategy with at least one leg and a slice that quotes
  every contract at most once, whatever the entry and exit filters and the thresholds: it
  returns, the options inventory is empty afterwards, one row per held combination is
  appended to the trade log with the held quantity, the date and the sum of its legs'
  costs as cost per unit, and the cash is reduced by the sum over these rows of cost per
  unit times quantity. The stock inventory and the ledger are untouched.
\<close>

lemma forced_close_effect:
  assumes legs_ne: "legs strat \<noteq> []"
    and uniq: "distinct (map optionroot options)"
  shows "\<exists>closed st'. sell_options bt strat st options date = Inr st'
     \<and> options_inventory st' = []
     \<and> trade_log st' = trade_log st @ closed
     \<and> length closed = length (options_inventory st)
     \<and> map totals_qty closed = map totals_qty (options_inventory st)
     \<and> map totals_date closed = replicate (length (options_inventory st)) (Some date)
     \<and> map totals_cost closed = map (\<lambda>c. sum_leg_costs (leg_cols c)) closed
     \<and> current_cash st' = fsub (current_cash st) (fsum (map (\<lambda>c. fmul (totals_cost c) (totals_qty c)) closed))
     \<and> stocks_inventory st' = stocks_inventory st
     \<and> balance st' = balance st"
proof -
  from quotes_exist [OF uniq] obtain qs where
    qs: "get_current_option_quotes bt strat st options = Inr qs" by blast
  let ?inv = "options_inventory st"
  define cs where "cs = fillna_frame
      (map (\<lambda>ls. \<lparr> leg_cols = ls, totals_cost = None, totals_qty = None, totals_date = None \<rparr>)
           (concat_legs (length ?inv) (map (map quote_fields) qs)))
      (impute_missing_option_values strat st ?inv)"
  define closed where "closed = map (\<lambda>(c, held). c\<lparr> totals_cost := sum_leg_costs (leg_cols c),
      totals_qty := totals_qty held, totals_date := Some date \<rparr>) (zip cs ?inv)"
  have len: "length cs = length ?inv"
    by (simp add: cs_def fillna_frame_length concat_legs_length)
  have res: "sell_options bt strat st options date
      = Inr (st\<lparr> options_inventory := [], trade_log := trade_log st @ closed,
                 current_cash := fsub (current_cash st)
                    (fsum (map (\<lambda>c. fmul (totals_cost c) (totals_qty c)) closed)) \<rparr>)"
    unfolding sell_options_def qs using legs_ne by (simp add: Let_def cs_def closed_def)
  have q: "map totals_qty closed = map totals_qty ?inv"
  proof -
    have "map totals_qty closed = map (totals_qty \<circ> snd) (zip cs ?inv)"
      by (simp add: closed_def case_prod_beta comp_def)
    also have "\<dots> = map totals_qty (map snd (zip cs ?inv))" by simp
    also have "\<dots> = map totals_qty ?inv" using len by (simp only: map_snd_zip)
    finally show ?thesis .
  qed
  have d: "map totals_date closed = replicate (length ?inv) (Some date)"
    using len by (auto simp: closed_def case_prod_beta intro!: nth_equalityI)
  have c: "map totals_cost closed = map (\<lambda>c. sum_leg_costs (leg_cols c)) closed"
    by (simp add: closed_def case_prod_beta)
  have l: "length closed = length ?inv" using len by (simp add: closed_def)
  show ?thesis
    unfolding res using q d c l by (intro exI [of _ closed]) simp
qed

text \<open>When the held contract is quoted, the leg is closed at the quote of the opposite
  side: 50 units of a bought call at a bid of 1.90 are logged at -190 per unit and credit
  9,500.\<close>

lemma forced_close_quoted:
  "closed_rows (sell_options long_backtest long_call_strategy held_long [quote ''C1'' (19 / 10) 2 6] 6)
     = [([Some (- 190)], Some (- 190), Some 50)]
   \<and> cash_of (sell_options long_backtest long_call_strategy held_long [quote ''C1'' (19 / 10) 2 6] 6)
     = Some (90000 + 190 * 50)"
  by code_simp

text \<open>Every rebalance that returns starts with the forced close: its trade log extends
  the log with one closing row per held combination, followed by at most one entry, and
  its options inventory holds that entry only.\<close>

lemma sell_options_result:
  assumes "sell_options bt strat st options date = Inr st1"
  shows "options_inventory st1 = []
       \<and> (\<exists>closed. trade_log st1 = trade_log st @ closed
             \<and> length closed = length (options_inventory st)
             \<and> map totals_qty closed = map totals_qty (options_inventory st))
       \<and> stocks_inventory st1 = stocks_inventory st"
proof -
  from assms obtain qs where
    qs: "get_current_option_quotes bt strat st options = Inr qs" and ne: "legs strat \<noteq> []"
    by (auto simp: sell_options_def split: sum.splits if_splits)
  let ?inv = "options_inventory st"
  define cs where "cs = fillna_frame
      (map (\<lambda>ls. \<lparr> leg_cols = ls, totals_cost = None, totals_qty = None, totals_date = None \<rparr>)
           (concat_legs (length ?inv) (map (map quote_fields) qs)))
      (impute_missing_option_values strat st ?inv)"
  define closed where "closed = map (\<lambda>(c, held). c\<lparr> totals_cost := sum_leg_costs (leg_cols c),
      totals_qty := totals_qty held, totals_date := Some date \<rparr>) (zip cs ?inv)"
  have len: "length cs = length ?inv"
    by (simp add: cs_def fillna_frame_length concat_legs_length)
  have res: "st1 = st\<lparr> options_inventory := [], trade_log := trade_log st @ closed,
                 current_cash := fsub (current_cash st)
                    (fsum (map (\<lambda>c. fmul (totals_cost c) (totals_qty c)) closed)) \<rparr>"
    using assms unfolding sell_options_def qs using ne by (simp add: Let_def cs_def closed_def)
  have q: "map totals_qty closed = map totals_qty ?inv"
  proof -
    have "map totals_qty closed = map (totals_qty \<circ> snd) (zip cs ?inv)"
      by (simp add: closed_def case_prod_beta comp_def)
    also have "\<dots> = map totals_qty (map snd (zip cs ?inv))" by simp
    also have "\<dots> = map totals_qty ?inv" using len by (simp only: map_snd_zip)
    finally show ?thesis .
  qed
  have l: "length closed = length ?inv" using len by (simp add: closed_def)
  show ?thesis unfolding res using q l by simp
qed

lemma buy_stocks_options:
  "buy_stocks bt st stocks_slice a sma_days = Inr st' \<Longrightarrow>
   trade_log st' = trade_log st \<and> options_inventory st' = options_inventory st"
  by (auto simp: buy_stocks_def split: if_splits)

lemma execute_option_entries_appends:
  "execute_option_entries bt strat st date options a = Inr st' \<Longrightarrow>
   \<exists>entries. trade_log st' = trade_log st @ entries
     \<and> options_inventory st' = options_inventory st @ entries \<and> length entries \<le> 1"
  by (auto simp: execute_option_entries_def Let_def pick_entry_signals_def split: if_splits list.splits)

lemma rebalance_closes_first:
  assumes "rebalance_portfolio bt strat st date stocks_slice options sma_days = Inr st'"
  shows "\<exists>st1 closed entries.
       sell_options bt strat st options date = Inr st1
     \<and> options_inventory st1 = []
     \<and> trade_log st1 = trade_log st @ closed
     \<and> length closed = length (options_inventory st)
     \<and> map totals_qty closed = map totals_qty (options_inventory st)
     \<and> trade_log st' = trade_log st @ closed @ entries
     \<and> options_inventory st' = entries
     \<and> length entries \<le> 1"
proof -
  from assms obtain st1 st3 st4 where
    s1: "sell_options bt strat st options date = Inr st1"
    and s3: "buy_stocks bt (initialize_inventories st1) stocks_slice
               (fmul (Some (stocks_frac (allocation bt)))
                     (fadd (current_cash st1) (Some (current_stock_capital st1 stocks_slice)))) sma_days = Inr st3"
    and s4: "execute_option_entries bt strat st3 date options
               (fmul (Some (options_frac (allocation bt)))
                     (fadd (current_cash st1) (Some (current_stock_capital st1 stocks_slice)))) = Inr st4"
    and s': "trade_log st' = trade_log st4" "options_inventory st' = options_inventory st4"
    by (auto simp: rebalance_portfolio_def Let_def split: sum.splits)
  from sell_options_result [OF s1] obtain closed where
    c: "options_inventory st1 = []" "trade_log st1 = trade_log st @ closed"
       "length closed = length (options_inventory st)"
       "map totals_qty closed = map totals_qty (options_inventory st)"
    by blast
  from buy_stocks_options [OF s3] have
    b: "trade_log st3 = trade_log st1" "options_inventory st3 = []"
    by (simp_all add: initialize_inventories_def)
  from execute_option_entries_appends [OF s4] obtain entries where
    e: "trade_log st4 = trade_log st3 @ entries" "options_inventory st4 = options_inventory st3 @ entries"
       "length entries \<le> 1"
    by blast
  from s1 c b e s' show ?thesis by auto
qed

text \<open>
  C4. The rebalance of day 2 of the three-day data when the held call C1 is no longer
  quoted. The forced close logs the closing row after the entry row, at the entry cost of
  200 per unit, and takes 200 * 200 from the cash, which was 0; the rebalance allocates
  from that cash and ends with 240 shares, no option and a cash of 8,000. The cash delta
  is the entry cost times the held quantity, not a closing cost.
\<close>

theorem forced_close_realizes_entry_cost:
  "closed_rows (sell_options long_backtest long_call_strategy day1_state expired_slice 2)
     = [([Some 200], Some 200, Some 200), ([Some 200], Some 200, Some 200)]
   \<and> cash_of (sell_options long_backtest long_call_strategy day1_state expired_slice 2)
     = Some (0 - 200 * 200)
   \<and> cash_of (rebalance_portfolio long_backtest long_call_strategy day1_state 2 [aaa 2 50] expired_slice None)
     = Some 8000
   \<and> stock_qtys (rebalance_portfolio long_backtest long_call_strategy day1_state 2 [aaa 2 50] expired_slice None)
     = [Some 240]
   \<and> entered_totals (rebalance_portfolio long_backtest long_call_strategy day1_state 2 [aaa 2 50] expired_slice None)
     = []"
  by code_simp


section \<open>Order of ledger flush and rebalance\<close>

lemma sell_options_balance:
  "sell_options bt strat st options date = Inr st' \<Longrightarrow> balance st' = balance st"
  by (auto simp: sell_options_def Let_def split: sum.splits if_splits)

lemma buy_stocks_balance:
  "buy_stocks bt st stocks_slice a sma_days = Inr st' \<Longrightarrow> balance st' = balance st"
  by (auto simp: buy_stocks_def split: if_splits)

lemma execute_option_entries_balance:
  "execute_option_entries bt strat st date options a = Inr st' \<Longrightarrow> balance st' = balance st"
  by (auto simp: execute_option_entries_def Let_def split: if_splits)

lemma rebalance_portfolio_balance:
  assumes "rebalance_portfolio bt strat st date stocks_slice options sma_days = Inr st'"
  shows "balance st' = balance st"
proof -
  from assms obtain st1 st3 st4 where
    s1: "sell_options bt strat st options date = Inr st1"
    and s3: "buy_stocks bt (initialize_inventories st1) stocks_slice
               (fmul (Some (stocks_frac (allocation bt)))
                     (fadd (current_cash st1) (Some (current_stock_capital st1 stocks_slice)))) sma_days = Inr st3"
    and s4: "execute_option_entries bt strat st3 date options
               (fmul (Some (options_frac (allocation bt)))
                     (fadd (current_cash st1) (Some (current_stock_capital st1 stocks_slice)))) = Inr st4"
    and s': "balance st' = balance st4"
    by (auto simp: rebalance_portfolio_def Let_def split: sum.splits)
  have "balance st4 = balance st3" by (rule execute_option_entries_balance [OF s4])
  also have "\<dots> = balance (initialize_inventories st1)" by (rule buy_stocks_balance [OF s3])
  also have "\<dots> = balance st1" by (simp add: initialize_inventories_def)
  also have "\<dots> = balance st" by (rule sell_options_balance [OF s1])
  finally show ?thesis using s' by simp
qed

lemma run_step_other_day:
  "date \<notin> set rebalancing_days \<Longrightarrow>
   run_step bt strat mkt rebalancing_days sma_days st (date, stocks_slice, options) = Inr st"
  by (simp add: run_step_def)

lemma ledger_rows_cong:
  assumes "stocks_inventory a = stocks_inventory b" "options_inventory a = options_inventory b"
    "current_cash a = current_cash b"
  shows "ledger_rows bt a positions srows orows = ledger_rows bt b positions srows orows"
  using assms by (simp add: ledger_rows_def stock_capital_at_def)

text \<open>
  C5. On a rebalancing date the step of the run first appends the ledger rows for the
  days from the previous rebalancing date up to, not including, the current date, and
  these rows are computed from the inventories and the cash of the state before the
  step; the rebalance then runs on that state and leaves the ledger as it is.
\<close>

theorem flush_precedes_rebalance:
  assumes day: "date \<in> set rebalancing_days"
    and step: "run_step bt strat mkt rebalancing_days sma_days st (date, stocks_slice, options) = Inr st'"
  shows "\<exists>loc positions rows.
       get_loc rebalancing_days date = Inr loc
     \<and> held_positions strat st = Inr positions
     \<and> rows = ledger_rows bt st positions
          (filter (\<lambda>r. in_period (if loc \<noteq> 0 then rebalancing_days ! (loc - 1) else date) date (s_date r))
                  (stocks_data mkt))
          (filter (\<lambda>r. in_period (if loc \<noteq> 0 then rebalancing_days ! (loc - 1) else date) date (quotedate r))
                  (options_data mkt))
     \<and> rebalance_portfolio bt strat (st\<lparr> balance := balance st @ rows \<rparr>) date stocks_slice options sma_days
         = Inr st'
     \<and> balance st' = balance st @ rows"
proof -
  from step day obtain loc st1 where
    loc: "get_loc rebalancing_days date = Inr loc"
    and ub: "update_balance bt strat st (if loc \<noteq> 0 then rebalancing_days ! (loc - 1) else date) date
               (stocks_data mkt) (options_data mkt) = Inr st1"
    and rb: "rebalance_portfolio bt strat st1 date stocks_slice options sma_days = Inr st'"
    by (auto simp: run_step_def Let_def split: sum.splits)
  let ?prev = "if loc \<noteq> 0 then rebalancing_days ! (loc - 1) else date"
  from ub obtain positions where
    pos: "held_positions strat st = Inr positions"
    and st1: "st1 = st\<lparr> balance := balance st @ ledger_rows bt st positions
          (filter (\<lambda>r. in_period ?prev date (s_date r)) (stocks_data mkt))
          (filter (\<lambda>r. in_period ?prev date (quotedate r)) (options_data mkt)) \<rparr>"
    by (auto simp: update_balance_def Let_def split: sum.splits if_splits)
  from rebalance_portfolio_balance [OF rb] have "balance st' = balance st1" .
  with loc pos st1 rb show ?thesis by auto
qed

text \<open>Day 2 of the three-day data with rebalancing days 1 and 2: the row for day 1 is
  valued with the 1200 shares and 200 units held since day 1, and the rebalance of day 2
  then holds 1176 shares and 196 units.\<close>

lemma day1_state_reached:
  "run_step long_backtest long_call_strategy long_market [1, 2] None
      (initial_state long_backtest long_market) (1, [aaa 1 50], [quote ''C1'' (19 / 10) 2 1])
     = Inr day1_state"
  by code_simp

theorem flush_precedes_rebalance_witness:
  "\<exists>st'. run_step long_backtest long_call_strategy long_market [1, 2] None day1_state
             (2, [aaa 2 50], [quote ''C1'' (19 / 10) 2 2]) = Inr st'
     \<and> ledger_cells (balance st')
         = [(0, Some 100000, [], None), (1, Some 0, [(''AAA'', Some 60000)], Some 38000)]
     \<and> map h_qty (stocks_inventory st') = [Some 1176]
     \<and> map totals_qty (options_inventory st') = [Some 196]"
proof -
  let ?step = "run_step long_backtest long_call_strategy long_market [1, 2] None day1_state
                 (2, [aaa 2 50], [quote ''C1'' (19 / 10) 2 2])"
  have d: "(2::int) \<in> set [1, 2]" by simp
  have "\<not> isl ?step" by code_simp
  then obtain st' where s: "?step = Inr st'" by (cases ?step) auto
  from flush_precedes_rebalance [OF d s] obtain loc positions rows where
    l: "get_loc [1, 2] 2 = Inr loc"
    and p: "held_positions long_call_strategy day1_state = Inr positions"
    and r: "rows = ledger_rows long_backtest day1_state positions
          (filter (\<lambda>r. in_period (if loc \<noteq> 0 then [1, 2] ! (loc - 1) else 2) 2 (s_date r))
                  (stocks_data long_market))
          (filter (\<lambda>r. in_period (if loc \<noteq> 0 then [1, 2] ! (loc - 1) else 2) 2 (quotedate r))
                  (options_data long_market))"
    and b: "balance st' = balance day1_state @ rows"
    by blast
  have "get_loc [1, 2] 2 = Inr 1" by code_simp
  with l have loc: "loc = 1" by simp
  have "held_positions long_call_strategy day1_state = Inr [(True, BUY, ''C1'', Some 200)]"
    by code_simp
  with p have pos: "positions = [(True, BUY, ''C1'', Some 200)]" by simp
  have rows: "ledger_cells (ledger_rows long_backtest day1_state [(True, BUY, ''C1'', Some 200)]
          (filter (\<lambda>r. in_period 1 2 (s_date r)) (stocks_data long_market))
          (filter (\<lambda>r. in_period 1 2 (quotedate r)) (options_data long_market)))
        = [(1, Some 0, [(''AAA'', Some 60000)], Some 38000)]"
    by code_simp
  have pre: "ledger_cells (balance day1_state) = [(0, Some 100000, [], None)]"
    by code_simp
  have cells: "ledger_cells (balance st')
      = [(0, Some 100000, [], None), (1, Some 0, [(''AAA'', Some 60000)], Some 38000)]"
    using rows pre unfolding b r loc pos by (simp add: ledger_cells_def)
  have inv: "stock_qtys ?step = [Some 1176]" "map snd (entered_totals ?step) = [Some 196]"
    by code_simp+
  from s cells inv show ?thesis
    by (simp add: stock_qtys_def entered_totals_def comp_def)
qed

section \<open>The constructor on binary64 values: normalization\<close>

lemma round_even_error: "\<bar>of_int (round_even m) - m\<bar> \<le> 1 / 2"
proof -
  have "of_int \<lfloor>m\<rfloor> \<le> m" "m < of_int \<lfloor>m\<rfloor> + 1" by linarith+
  then show ?thesis by (auto simp: round_even_def Let_def)
qed

lemma round_even_of_int [simp]: "round_even (of_int k) = k"
  by (simp add: round_even_def)

lemma round_even_nonneg: "0 \<le> m \<Longrightarrow> 0 \<le> round_even m"
  by (auto simp: round_even_def Let_def)

lemma p2_pos [simp]: "0 < power_int (2::rat) k"
  by (simp add: power_int_def)

lemma p2_nonneg_exp: "0 \<le> k \<Longrightarrow> power_int (2::rat) k = 2 ^ nat k"
  by (simp add: power_int_def)

lemma p2_Suc: "power_int (2::rat) (k + 1) = 2 * power_int 2 k"
  by (simp add: power_int_add)

lemma p2_minus: "power_int (2::rat) (- k) = 1 / power_int 2 k"
  by (simp add: power_int_minus_divide)

lemma p2_diff: "power_int (2::rat) (k - j) = power_int 2 k / power_int 2 j"
  by (simp add: power_int_diff)

lemma bitlen_ge1: "0 < n \<Longrightarrow> 1 \<le> bitlen n"
  using bitlen_eq_zero_iff [of n] bitlen_nonneg [of n] by linarith

lemma ilog2_bounds:
  assumes "x \<noteq> 0"
  shows "power_int 2 (ilog2 x) \<le> \<bar>x\<bar>" and "\<bar>x\<bar> < power_int 2 (ilog2 x + 1)"
proof -
  let ?y = "\<bar>x\<bar>"
  from assms have ypos: "0 < ?y" by simp
  have "power_int 2 (ilog2 x) \<le> ?y \<and> ?y < power_int 2 (ilog2 x + 1)"
  proof (cases "1 \<le> ?y")
    case True
    let ?n = "\<lfloor>?y\<rfloor>"
    from True have npos: "0 < ?n" by simp
    let ?b = "bitlen ?n"
    from bitlen_ge1 [OF npos] have b1: "1 \<le> ?b" .
    from bitlen_bounds [OF npos] have lo: "2 ^ nat (?b - 1) \<le> ?n" and hi: "?n < 2 ^ nat ?b" by simp_all
    have il: "ilog2 x = ?b - 1" using True by (simp add: ilog2_def)
    have "power_int (2::rat) (?b - 1) = of_int (2 ^ nat (?b - 1))"
      using b1 by (simp add: p2_nonneg_exp)
    also have "\<dots> \<le> of_int ?n" using lo by (simp only: of_int_le_iff)
    also have "\<dots> \<le> ?y" by (rule of_int_floor_le)
    finally have A: "power_int 2 (?b - 1) \<le> ?y" .
    from hi have "?n + 1 \<le> 2 ^ nat ?b" by simp
    then have "(of_int (?n + 1) :: rat) \<le> of_int (2 ^ nat ?b)" by (simp only: of_int_le_iff)
    moreover have "?y < of_int (?n + 1)" by (simp add: floor_less_iff [symmetric]) linarith
    ultimately have "?y < of_int (2 ^ nat ?b)" by linarith
    also have "(of_int (2 ^ nat ?b) :: rat) = power_int 2 ?b"
      using b1 by (simp add: p2_nonneg_exp)
    finally have B: "?y < power_int 2 (?b - 1 + 1)" by simp
    from A B il show ?thesis by simp
  next
    case False
    let ?z = "1 / ?y"
    from False ypos have z1: "1 < ?z" by (simp add: field_simps)
    let ?m = "\<lceil>?z\<rceil> - 1"
    from z1 have "1 < \<lceil>?z\<rceil>" by (simp add: less_ceiling_iff)
    then have mpos: "0 < ?m" by simp
    let ?b = "bitlen ?m"
    from bitlen_ge1 [OF mpos] have b1: "1 \<le> ?b" .
    from bitlen_bounds [OF mpos] have lo: "2 ^ nat (?b - 1) \<le> ?m" and hi: "?m < 2 ^ nat ?b" by simp_all
    have il: "ilog2 x = - ?b" using False by (simp add: ilog2_def)
    have "?z \<le> of_int \<lceil>?z\<rceil>" by (rule le_of_int_ceiling)
    also have "(of_int \<lceil>?z\<rceil> :: rat) = of_int (?m + 1)" by simp
    also from hi have "(of_int (?m + 1) :: rat) \<le> of_int (2 ^ nat ?b)"
      by (simp only: of_int_le_iff)
    also have "(of_int (2 ^ nat ?b) :: rat) = power_int 2 ?b" using b1 by (simp add: p2_nonneg_exp)
    finally have zle: "?z \<le> power_int 2 ?b" .
    have "1 / power_int 2 ?b \<le> ?y"
    proof -
      from zle ypos have "1 \<le> power_int 2 ?b * ?y" by (simp add: field_simps)
      then show ?thesis by (simp add: field_simps)
    qed
    then have A: "power_int 2 (- ?b) \<le> ?y" by (simp add: p2_minus)
    have "(of_int ?m :: rat) < ?z"
    proof -
      have "of_int \<lceil>?z\<rceil> < ?z + 1" by linarith
      then show ?thesis by simp
    qed
    moreover have "(of_int (2 ^ nat (?b - 1)) :: rat) \<le> of_int ?m" using lo by (simp only: of_int_le_iff)
    ultimately have "(of_int (2 ^ nat (?b - 1)) :: rat) < ?z" by linarith
    moreover have "(of_int (2 ^ nat (?b - 1)) :: rat) = power_int 2 (?b - 1)"
      using b1 by (simp add: p2_nonneg_exp)
    ultimately have zgt: "power_int 2 (?b - 1) < ?z" by simp
    have "?y < 1 / power_int 2 (?b - 1)"
    proof -
      from zgt ypos have "power_int 2 (?b - 1) * ?y < 1" by (simp add: field_simps)
      then show ?thesis by (simp add: field_simps)
    qed
    then have "?y < power_int 2 (- (?b - 1))" by (simp only: p2_minus)
    then have B: "?y < power_int 2 (- ?b + 1)" by simp
    from A B il show ?thesis by simp
  qed
  then show "power_int 2 (ilog2 x) \<le> \<bar>x\<bar>" and "\<bar>x\<bar> < power_int 2 (ilog2 x + 1)" by simp_all
qed

lemma tiny_pos [simp]: "0 < tiny"
  unfolding tiny_def by (rule p2_pos)

lemma tiny_nonneg [simp]: "0 \<le> tiny"
  using tiny_pos by (rule less_imp_le)

lemma tiny_nz [simp]: "tiny \<noteq> 0"
  unfolding tiny_def by (rule power_int_not_zero) simp

lemma ulp_tiny:
  assumes "- 1022 \<le> e"
  shows "power_int (2::rat) (e - 52) = 2 ^ nat (e + 1022) * tiny"
proof -
  have "e - 52 = (e + 1022) + (- 1074)" by simp
  then have "power_int (2::rat) (e - 52) = power_int 2 ((e + 1022) + (- 1074))" by (simp only:)
  also have "\<dots> = power_int 2 (e + 1022) * power_int 2 (- 1074)"
    by (rule power_int_add) simp
  also have "power_int (2::rat) (e + 1022) = 2 ^ nat (e + 1022)"
    using assms by (intro p2_nonneg_exp) simp
  finally show ?thesis unfolding tiny_def .
qed

lemma half_min_ulp: "power_int (2::rat) (- 1022 - 53) = tiny / 2"
proof -
  have "(- 1022 :: int) - 53 = - 1074 - 1" by simp
  then have "power_int (2::rat) (- 1022 - 53) = power_int 2 (- 1074 - 1)" by (simp only:)
  also have "\<dots> = power_int 2 (- 1074) / power_int 2 1" by (rule p2_diff)
  finally show ?thesis unfolding tiny_def by (simp only: power_int_1_right)
qed

lemma round_double_error:
  assumes "x \<noteq> 0"
  shows "\<bar>round_double x - x\<bar> \<le> power_int 2 (max (ilog2 x) (- 1022) - 53)"
proof -
  let ?e = "max (ilog2 x) (- 1022)"
  let ?ulp = "power_int (2::rat) (?e - 52)"
  let ?n = "round_even (x / ?ulp)"
  have r: "round_double x = of_int ?n * ?ulp"
    using assms by (simp only: round_double_def Let_def if_False)
  have upos: "0 < ?ulp" by (rule p2_pos)
  then have "round_double x - x = (of_int ?n - x / ?ulp) * ?ulp"
    unfolding r by (simp add: field_simps)
  then have "\<bar>round_double x - x\<bar> = \<bar>of_int ?n - x / ?ulp\<bar> * ?ulp"
    using upos by (simp add: abs_mult)
  also have "\<dots> \<le> 1 / 2 * ?ulp"
    using upos by (intro mult_right_mono [OF round_even_error]) simp
  also have "1 / 2 * ?ulp = power_int 2 (?e - 52 - 1)"
    by (simp only: p2_diff [of "?e - 52" 1] power_int_1_right) 
  also have "?e - 52 - 1 = ?e - 53" by simp
  finally show ?thesis .
qed

lemma round_double_normal:
  assumes "x \<noteq> 0" "- 1022 \<le> ilog2 x"
  shows "\<bar>round_double x - x\<bar> \<le> \<bar>x\<bar> / 2 ^ 53"
proof -
  from assms(2) have m: "max (ilog2 x) (- 1022) = ilog2 x" by simp
  have "\<bar>round_double x - x\<bar> \<le> power_int 2 (ilog2 x - 53)"
    using round_double_error [OF assms(1)] unfolding m .
  also have "\<dots> = power_int 2 (ilog2 x) / power_int 2 53"
    by (rule p2_diff)
  also have "power_int (2::rat) 53 = 2 ^ 53" by (rule power_int_numeral)
  also have "power_int 2 (ilog2 x) / 2 ^ 53 \<le> \<bar>x\<bar> / 2 ^ 53"
    using ilog2_bounds(1) [OF assms(1)] by (intro divide_right_mono) simp_all
  finally show ?thesis .
qed

lemma round_double_zero [simp]: "round_double 0 = 0"
  by (simp add: round_double_def)

lemma round_double_general: "\<bar>round_double x - x\<bar> \<le> \<bar>x\<bar> / 2 ^ 53 + tiny / 2"
proof (cases "x = 0")
  case True
  then show ?thesis using tiny_pos by (simp add: less_imp_le)
next
  case False
  have t: "0 \<le> tiny / 2" using tiny_pos by simp
  have a: "0 \<le> \<bar>x\<bar> / 2 ^ 53" by simp
  show ?thesis
  proof (cases "- 1022 \<le> ilog2 x")
    case True
    from round_double_normal [OF False True] t show ?thesis by linarith
  next
    case sub: False
    then have m: "max (ilog2 x) (- 1022) = - 1022" by simp
    have "\<bar>round_double x - x\<bar> \<le> tiny / 2"
      using round_double_error [OF False] unfolding m half_min_ulp .
    with a show ?thesis by linarith
  qed
qed

lemma on_grid_iff: "on_grid x \<longleftrightarrow> (\<exists>k::int. x = of_int k * tiny)"
proof
  assume "on_grid x"
  then have "x / tiny = of_int \<lfloor>x / tiny\<rfloor>" unfolding on_grid_def by (rule sym)
  then have "x = of_int \<lfloor>x / tiny\<rfloor> * tiny" using tiny_pos by (simp add: field_simps)
  then show "\<exists>k::int. x = of_int k * tiny" by blast
next
  assume "\<exists>k::int. x = of_int k * tiny"
  then obtain k :: int where "x = of_int k * tiny" by blast
  then have q: "x / tiny = of_int k" by simp
  show "on_grid x" unfolding on_grid_def q by simp
qed

lemma on_grid_add: "on_grid x \<Longrightarrow> on_grid y \<Longrightarrow> on_grid (x + y)"
proof -
  assume "on_grid x" "on_grid y"
  then obtain k j :: int where "x = of_int k * tiny" "y = of_int j * tiny"
    unfolding on_grid_iff by blast
  then have "x + y = of_int (k + j) * tiny" by (simp add: algebra_simps)
  then show "on_grid (x + y)" unfolding on_grid_iff by blast
qed

lemma on_grid_zero [simp]: "on_grid 0"
  by (simp add: on_grid_def)

lemma round_double_on_grid: "on_grid (round_double x)"
proof (cases "x = 0")
  case True
  then show ?thesis by simp
next
  case False
  let ?e = "max (ilog2 x) (- 1022)"
  let ?n = "round_even (x / power_int 2 (?e - 52))"
  have r: "round_double x = of_int ?n * power_int 2 (?e - 52)"
    using False by (simp only: round_double_def Let_def if_False)
  have "- 1022 \<le> ?e" by simp
  from ulp_tiny [OF this] have "round_double x = of_int (?n * 2 ^ nat (?e + 1022)) * tiny"
    unfolding r by (simp add: mult.assoc)
  then show ?thesis unfolding on_grid_iff by blast
qed

lemma is_double_on_grid: "is_double x \<Longrightarrow> on_grid x"
  unfolding is_double_def using round_double_on_grid [of x] by simp

lemma round_double_grid_exact:
  assumes "on_grid x" "x \<noteq> 0" "ilog2 x < - 1022"
  shows "round_double x = x"
proof -
  from assms(1) obtain k :: int where k: "x = of_int k * tiny" unfolding on_grid_iff by blast
  from assms(3) have m: "max (ilog2 x) (- 1022) = - 1022" by simp
  have u: "power_int (2::rat) (- 1022 - 52) = tiny"
    using ulp_tiny [of "- 1022"] by simp
  have q: "x / tiny = of_int k" using k tiny_pos by simp
  have "round_double x = of_int (round_even (x / tiny)) * tiny"
    using assms(2) by (simp only: round_double_def Let_def if_False m u)
  also have "\<dots> = of_int k * tiny" by (simp only: q round_even_of_int)
  finally show ?thesis using k by simp
qed

lemma round_double_grid:
  assumes "on_grid x"
  shows "\<bar>round_double x - x\<bar> \<le> \<bar>x\<bar> / 2 ^ 53"
proof (cases "x = 0")
  case True
  then show ?thesis by simp
next
  case False
  show ?thesis
  proof (cases "- 1022 \<le> ilog2 x")
    case True
    from round_double_normal [OF False True] show ?thesis .
  next
    case sub: False
    then have "ilog2 x < - 1022" by simp
    from round_double_grid_exact [OF assms False this] show ?thesis by simp
  qed
qed

lemma round_double_nonneg:
  assumes "0 \<le> x"
  shows "0 \<le> round_double x"
proof (cases "x = 0")
  case True
  then show ?thesis by simp
next
  case False
  let ?ulp = "power_int (2::rat) (max (ilog2 x) (- 1022) - 52)"
  have r: "round_double x = of_int (round_even (x / ?ulp)) * ?ulp"
    using False by (simp only: round_double_def Let_def if_False)
  have upos: "0 < ?ulp" by (rule p2_pos)
  with assms have "0 \<le> x / ?ulp" by simp
  then have "0 \<le> round_even (x / ?ulp)" by (rule round_even_nonneg)
  then have "(0::rat) \<le> of_int (round_even (x / ?ulp))" by simp
  then show ?thesis unfolding r using upos by (intro mult_nonneg_nonneg) simp_all
qed

lemma not_overflows_small:
  assumes "\<bar>r\<bar> < 8"
  shows "\<not> overflows r"
proof
  assume o: "overflows r"
  then have nz: "r \<noteq> 0" and big: "1024 \<le> ilog2 r" by (simp_all add: overflows_def)
  have "power_int (2::rat) 3 \<le> power_int 2 (ilog2 r)"
    using big by (intro power_int_increasing) simp_all
  also have "\<dots> \<le> \<bar>r\<bar>" by (rule ilog2_bounds(1) [OF nz])
  finally have "(8::rat) \<le> \<bar>r\<bar>" by simp
  with assms show False by simp
qed

lemma fl_small: "\<bar>round_double q\<bar> < 8 \<Longrightarrow> fl q = Fin (round_double q)"
  using not_overflows_small [of "round_double q"] by (simp add: fl_def Let_def)

lemma fl_double: "is_double v \<Longrightarrow> fl v = Fin v"
  by (simp add: fl_def Let_def is_double_def)

lemma fl_Fin_D: "fl x = Fin r \<Longrightarrow> r = round_double x"
  by (auto simp: fl_def Let_def split: if_splits)

lemma fp_add_Fin_left: "fp_add X (Fin c) = Fin t \<Longrightarrow> \<exists>s. X = Fin s"
  by (cases X) simp_all

lemma eps_pos: "0 < eps" and eps_le1: "eps \<le> 1"
  by (simp_all add: eps_def)

lemma tiny_le: "tiny \<le> eps"
proof -
  have "power_int (2::rat) (- 1074) \<le> power_int 2 (- 53)"
    by (intro power_int_increasing) simp_all
  also have "power_int (2::rat) (- 53) = 1 / 2 ^ 53"
    by (simp only: p2_minus power_int_numeral)
  finally show ?thesis unfolding tiny_def eps_def .
qed

lemma round_double_grid_eps: "on_grid x \<Longrightarrow> \<bar>round_double x - x\<bar> \<le> \<bar>x\<bar> * eps"
  using round_double_grid [of x] by (simp only: eps_def times_divide_eq_right mult_1_right)

lemma round_double_general_eps: "\<bar>round_double x - x\<bar> \<le> \<bar>x\<bar> * eps + tiny / 2"
  using round_double_general [of x] by (simp only: eps_def times_divide_eq_right mult_1_right)

lemma total_close:
  assumes g1: "on_grid a1" and g2: "on_grid a2" and g3: "on_grid a3"
    and n1: "0 \<le> a1" and n2: "0 \<le> a2" and n3: "0 \<le> a3"
  defines "s2 \<equiv> round_double (a1 + a2)"
  defines "t \<equiv> round_double (s2 + a3)"
  shows "\<bar>t - (a1 + a2 + a3)\<bar> \<le> 3 * ((a1 + a2 + a3) * eps)"
proof -
  define b where "b = a1 + a2"
  have bn: "0 \<le> b" using n1 n2 by (simp add: b_def)
  have e1: "\<bar>s2 - b\<bar> \<le> \<bar>b\<bar> * eps"
    unfolding s2_def b_def by (rule round_double_grid_eps [OF on_grid_add [OF g1 g2]])
  have s2g: "on_grid s2" unfolding s2_def by (rule round_double_on_grid)
  have s2n: "0 \<le> s2" unfolding s2_def using n1 n2 by (intro round_double_nonneg) simp
  have e2: "\<bar>t - (s2 + a3)\<bar> \<le> \<bar>s2 + a3\<bar> * eps"
    unfolding t_def by (rule round_double_grid_eps [OF on_grid_add [OF s2g g3]])
  from bn have pb: "\<bar>b\<bar> = b" by simp
  from s2n n3 have pc: "\<bar>s2 + a3\<bar> = s2 + a3" by simp
  from e1 have b1: "s2 - b \<le> b * eps" "b - s2 \<le> b * eps"
    unfolding pb by linarith+
  from e2 have b2: "t - (s2 + a3) \<le> (s2 + a3) * eps" "(s2 + a3) - t \<le> (s2 + a3) * eps"
    unfolding pc by linarith+
  have be: "0 \<le> b * eps" using bn eps_pos by simp
  have k: "b * eps * eps \<le> b * eps"
    using be eps_le1 by (rule mult_left_le [rotated])
  have "s2 + a3 \<le> b + b * eps + a3" using b1(1) by simp
  then have "(s2 + a3) * eps \<le> (b + b * eps + a3) * eps"
    using eps_pos by (intro mult_right_mono) simp_all
  also have "\<dots> = b * eps + b * eps * eps + a3 * eps" by (simp add: algebra_simps)
  finally have m: "(s2 + a3) * eps \<le> b * eps + b * eps * eps + a3 * eps" .
  have a3e: "0 \<le> a3 * eps" using n3 eps_pos by simp
  have A: "a1 + a2 + a3 = b + a3" by (simp add: b_def)
  have tot: "(b + a3) * eps = b * eps + a3 * eps" by (rule distrib_right)
  from b1 b2 k m a3e be tot show ?thesis unfolding A by linarith
qed

lemma quotient_stored:
  assumes q0: "0 \<le> q" and q2: "q \<le> 2"
  shows "fl q = Fin (round_double q)" and "\<bar>round_double q - q\<bar> \<le> q * eps + tiny / 2"
proof -
  from q0 have aq: "\<bar>q\<bar> = q" by simp
  show e: "\<bar>round_double q - q\<bar> \<le> q * eps + tiny / 2"
    using round_double_general_eps [of q] unfolding aq .
  have "q * eps \<le> 2 * 1"
    using q0 q2 eps_pos eps_le1 by (intro mult_mono) simp_all
  moreover have "tiny / 2 \<le> 1" using tiny_le eps_le1 by simp
  ultimately have "\<bar>round_double q\<bar> < 8" using e q2 q0 by linarith
  then show "fl q = Fin (round_double q)" by (rule fl_small)
qed

lemma float_zero_total_raises:
  "float_total a = Fin 0 \<Longrightarrow> Backtest_init_float a = Inl ZeroDivisionError"
  by (simp add: Backtest_init_float_def)

text \<open>
  C9, as the code has it. For an allocation dict of non-negative floats whose float total
  is finite and positive, the constructor returns, each stored fraction is the float
  nearest to the input value divided by the total, and the three stored fractions sum to
  1 within 1e-6, whatever the scale of the values; this holds of their exact sum and of
  their float sum.
\<close>

theorem float_allocation_normalized:
  assumes vals: "\<forall>k \<in> set assets. is_double (dict_get a k) \<and> 0 \<le> dict_get a k"
    and tot: "float_total a = Fin t"
    and tpos: "0 < t"
  shows "\<exists>fs fo fc.
           Backtest_init_float a = Inr \<lparr> stocks_fl = Fin fs, options_fl = Fin fo, cash_fl = Fin fc \<rparr>
         \<and> fs = round_double (dict_get a ''stocks'' / t)
         \<and> fo = round_double (dict_get a ''options'' / t)
         \<and> fc = round_double (dict_get a ''cash'' / t)
         \<and> \<bar>fs + fo + fc - 1\<bar> \<le> 1 / 1000000
         \<and> \<bar>round_double (round_double (fs + fo) + fc) - 1\<bar> \<le> 1 / 1000000"
proof -
  let ?a1 = "dict_get a ''stocks''" and ?a2 = "dict_get a ''options''" and ?a3 = "dict_get a ''cash''"
  from vals have d1: "is_double ?a1" and d2: "is_double ?a2" and d3: "is_double ?a3"
    and n1: "0 \<le> ?a1" and n2: "0 \<le> ?a2" and n3: "0 \<le> ?a3"
    by (simp_all add: assets_def)
  define s2 where "s2 = round_double (?a1 + ?a2)"
  define A where "A = ?a1 + ?a2 + ?a3"
  have t0: "float_total a = fp_add (fl (?a1 + ?a2)) (Fin ?a3)"
    using fl_double [OF d1] by (simp add: float_total_def assets_def float_get_def)
  with tot obtain s where s: "fl (?a1 + ?a2) = Fin s"
    using fp_add_Fin_left [of "fl (?a1 + ?a2)" ?a3 t] by auto
  from fl_Fin_D [OF s] have ss: "s = s2" by (simp add: s2_def)
  from tot t0 s ss have "fl (s2 + ?a3) = Fin t" by simp
  from fl_Fin_D [OF this] have tt: "t = round_double (s2 + ?a3)" .
  have close: "\<bar>t - A\<bar> \<le> 3 * (A * eps)"
    unfolding tt s2_def A_def
    by (rule total_close [OF is_double_on_grid [OF d1] is_double_on_grid [OF d2]
          is_double_on_grid [OF d3] n1 n2 n3])
  have An: "0 \<le> A" using n1 n2 n3 by (simp add: A_def)
  have e6: "eps \<le> 1 / 6" by (simp add: eps_def)
  have Ae: "A * eps \<le> A * (1 / 6)" using An e6 by (rule mult_left_mono [rotated])
  have Ae0: "0 \<le> A * eps" using An eps_pos by simp
  from close Ae have half: "A \<le> 2 * t" by linarith
  define r where "r = A / t"
  have r0: "0 \<le> r" using An tpos by (simp add: r_def)
  have r2: "r \<le> 2" using half tpos by (simp add: r_def field_simps)
  have q: "0 \<le> x / t \<and> x / t \<le> 2" if "0 \<le> x" "x \<le> A" for x
  proof -
    from that half have "x \<le> 2 * t" by linarith
    with that(1) tpos show ?thesis by (simp add: field_simps)
  qed
  have q1: "0 \<le> ?a1 / t" "?a1 / t \<le> 2" using q [of "?a1"] n1 n2 n3 by (simp_all add: A_def)
  have q2: "0 \<le> ?a2 / t" "?a2 / t \<le> 2" using q [of "?a2"] n1 n2 n3 by (simp_all add: A_def)
  have q3: "0 \<le> ?a3 / t" "?a3 / t \<le> 2" using q [of "?a3"] n1 n2 n3 by (simp_all add: A_def)
  let ?f1 = "round_double (?a1 / t)" and ?f2 = "round_double (?a2 / t)" and ?f3 = "round_double (?a3 / t)"
  have s1: "fl (?a1 / t) = Fin ?f1" by (rule quotient_stored(1) [OF q1])
  have b1: "\<bar>?f1 - ?a1 / t\<bar> \<le> ?a1 / t * eps + tiny / 2" by (rule quotient_stored(2) [OF q1])
  have s2': "fl (?a2 / t) = Fin ?f2" by (rule quotient_stored(1) [OF q2])
  have b2: "\<bar>?f2 - ?a2 / t\<bar> \<le> ?a2 / t * eps + tiny / 2" by (rule quotient_stored(2) [OF q2])
  have s3: "fl (?a3 / t) = Fin ?f3" by (rule quotient_stored(1) [OF q3])
  have b3: "\<bar>?f3 - ?a3 / t\<bar> \<le> ?a3 / t * eps + tiny / 2" by (rule quotient_stored(2) [OF q3])
  have init: "Backtest_init_float a
      = Inr \<lparr> stocks_fl = Fin ?f1, options_fl = Fin ?f2, cash_fl = Fin ?f3 \<rparr>"
    using tpos s1 s2' s3 by (simp add: Backtest_init_float_def tot float_get_def)
  have rsum: "?a1 / t + ?a2 / t + ?a3 / t = r"
    by (simp add: r_def A_def add_divide_distrib)
  have rsum_eps: "?a1 / t * eps + ?a2 / t * eps + ?a3 / t * eps = r * eps"
    unfolding rsum [symmetric] by (simp add: distrib_right)
  have re: "r * eps \<le> 2 * eps" using r2 eps_pos by (intro mult_right_mono) simp_all
  have "r - 1 = (A - t) / t" using tpos by (simp add: r_def diff_divide_distrib)
  then have "\<bar>r - 1\<bar> = \<bar>A - t\<bar> / t" using tpos by (simp add: abs_divide)
  also have "\<dots> \<le> 3 * (A * eps) / t"
    using close tpos by (intro divide_right_mono) (simp_all add: abs_minus_commute)
  also have "\<dots> = 3 * (r * eps)" by (simp add: r_def)
  finally have r1: "\<bar>r - 1\<bar> \<le> 3 * (r * eps)" .
  have te: "tiny / 2 \<le> eps" using tiny_le tiny_nonneg by linarith
  have S12: "\<bar>?f1 + ?f2 + ?f3 - 1\<bar> \<le> 12 * eps"
    using b1 b2 b3 rsum rsum_eps re r1 te by linarith
  have small: "18 * eps \<le> 1 / 1000000" by (simp add: eps_def)
  have exact: "\<bar>?f1 + ?f2 + ?f3 - 1\<bar> \<le> 1 / 1000000"
    using S12 small eps_pos by linarith
  have fn: "0 \<le> ?f1" "0 \<le> ?f2" "0 \<le> ?f3"
    using q1(1) q2(1) q3(1) by (simp_all add: round_double_nonneg)
  have fsum_close: "\<bar>round_double (round_double (?f1 + ?f2) + ?f3) - (?f1 + ?f2 + ?f3)\<bar>
      \<le> 3 * ((?f1 + ?f2 + ?f3) * eps)"
    by (rule total_close [OF round_double_on_grid round_double_on_grid round_double_on_grid fn])
  have "?f1 + ?f2 + ?f3 \<le> 2" using S12 small eps_pos by linarith
  then have "(?f1 + ?f2 + ?f3) * eps \<le> 2 * eps"
    using eps_pos by (intro mult_right_mono) simp_all
  with fsum_close S12 small have floatsum:
    "\<bar>round_double (round_double (?f1 + ?f2) + ?f3) - 1\<bar> \<le> 1 / 1000000"
    by linarith
  from init exact floatsum show ?thesis by blast
qed

text \<open>The values 60, 30 and 10: the total is 100 and the stored stocks fraction is the
  float nearest to 0.6.\<close>

theorem float_allocation_normalized_witness:
  "\<exists>fs fo fc.
     Backtest_init_float plain_allocation
       = Inr \<lparr> stocks_fl = Fin fs, options_fl = Fin fo, cash_fl = Fin fc \<rparr>
     \<and> fs = round_double (3 / 5) \<and> \<bar>fs + fo + fc - 1\<bar> \<le> 1 / 1000000"
proof -
  have v: "\<forall>k \<in> set assets. is_double (dict_get plain_allocation k) \<and> 0 \<le> dict_get plain_allocation k"
  proof -
    have "list_all (\<lambda>k. is_double (dict_get plain_allocation k) \<and> 0 \<le> dict_get plain_allocation k) assets"
      by code_simp
    then show ?thesis by (simp add: list_all_iff)
  qed
  have t: "float_total plain_allocation = Fin 100" by code_simp
  have p: "(0::rat) < 100" by simp
  have s: "dict_get plain_allocation ''stocks'' / 100 = 3 / 5"
    by (simp add: plain_allocation_def dict_get_def)
  from float_allocation_normalized [OF v t p] show ?thesis unfolding s by blast
qed


text \<open>The floats -2.0, 1.9 and 0.1 have the float total -3 / 2^55, which is not zero, so
  the constructor accepts them; the stored fractions sum to -0.25.\<close>

theorem float_allocation_counterexample:
  "list_all (\<lambda>k. is_double (dict_get mixed_allocation k)) assets
   \<and> float_total mixed_allocation = Fin (- 3 / 36028797018963968)
   \<and> stored_sum (Backtest_init_float mixed_allocation) = Some (- 1 / 4)
   \<and> \<not> \<bar>(- 1 / 4 :: rat) - 1\<bar> \<le> 1 / 1000000"
  by code_simp

end
